theory Spec2Isabelle
  imports Main "HOL-Library.Sublist" "HOL-Library.Monad_Syntax"
begin

section \<open>HappyRef: values and built-in operations of the host language\<close>

text \<open>
  The repository holds several revisions of the plugin; the model follows the latest one,
  with eight citation styles, the choice of a file name style and the command that changes
  the citation style of a note.

  The plugin handles the registry's answer as an untyped JSON value (\<open>message: any\<close>),
  so the model keeps it untyped too. Numbers are the integers (registry dates, volumes and
  counters); strings are lists of characters, one per code unit, and since a character
  has 8 bits, text beyond Latin-1 is outside the model.
  A function that can raise returns an option, \<open>None\<close> standing for a thrown
  \<open>TypeError\<close>.
\<close>

datatype jsval =
    JUndefined
  | JNull
  | JBool bool
  | JNum int
  | JStr string
  | JArr "jsval list"
  | JObj "(string \<times> jsval) list"

text \<open>Truthiness, as tested by \<open>if (x)\<close>, \<open>!x\<close>, \<open>x && y\<close> and \<open>x || y\<close>.\<close>

fun truthy :: "jsval \<Rightarrow> bool" where
  "truthy JUndefined = False"
| "truthy JNull = False"
| "truthy (JBool b) = b"
| "truthy (JNum n) = (n \<noteq> 0)"
| "truthy (JStr s) = (s \<noteq> [])"
| "truthy (JArr xs) = True"
| "truthy (JObj fs) = True"

text \<open>Decimal rendering of a number, as \<open>String(n)\<close> and \<open>`${n}`\<close> give it.\<close>

function showNat :: "nat \<Rightarrow> string" where
  "showNat n = (if n < 10 then [''0123456789'' ! n] else showNat (n div 10) @ [''0123456789'' ! (n mod 10)])"
  by pat_completeness auto
termination
  by (relation "measure (\<lambda>n. n)") auto

declare showNat.simps [simp del]

definition showInt :: "int \<Rightarrow> string" where
  "showInt i = (if i < 0 then CHR ''-'' # showNat (nat (- i)) else showNat (nat i))"

fun join :: "string \<Rightarrow> string list \<Rightarrow> string" where
  "join sep [] = []"
| "join sep [x] = x"
| "join sep (x # y # ys) = x @ sep @ join sep (y # ys)"

text \<open>\<open>ToString\<close>: what a template literal \<open>`${v}`\<close> and \<open>String(v)\<close> insert.\<close>

fun toStr :: "jsval \<Rightarrow> string" where
  "toStr JUndefined = ''undefined''"
| "toStr JNull = ''null''"
| "toStr (JBool b) = (if b then ''true'' else ''false'')"
| "toStr (JNum n) = showInt n"
| "toStr (JStr s) = s"
| "toStr (JArr xs) =
     join '','' (map (\<lambda>x. case x of JUndefined \<Rightarrow> [] | JNull \<Rightarrow> [] | _ \<Rightarrow> toStr x) xs)"
| "toStr (JObj fs) = ''[object Object]''"

text \<open>
  Property read \<open>v.k\<close> or \<open>v['k']\<close> with a name: it throws on \<open>undefined\<close> and
  \<open>null\<close>, reads an own entry of an object, knows \<open>length\<close> on arrays and strings,
  and is \<open>undefined\<close> otherwise.
\<close>

fun getProp :: "jsval \<Rightarrow> string \<Rightarrow> jsval option" where
  "getProp JUndefined k = None"
| "getProp JNull k = None"
| "getProp (JObj fs) k = Some (case map_of fs k of None \<Rightarrow> JUndefined | Some v \<Rightarrow> v)"
| "getProp (JArr xs) k = Some (if k = ''length'' then JNum (int (length xs)) else JUndefined)"
| "getProp (JStr s) k = Some (if k = ''length'' then JNum (int (length s)) else JUndefined)"
| "getProp (JBool b) k = Some JUndefined"
| "getProp (JNum n) k = Some JUndefined"

text \<open>Indexed read \<open>v[i]\<close>: an element, a one-character string, or \<open>undefined\<close>.\<close>

fun getIndex :: "jsval \<Rightarrow> nat \<Rightarrow> jsval option" where
  "getIndex JUndefined i = None"
| "getIndex JNull i = None"
| "getIndex (JArr xs) i = Some (if i < length xs then xs ! i else JUndefined)"
| "getIndex (JStr s) i = Some (if i < length s then JStr [s ! i] else JUndefined)"
| "getIndex (JObj fs) i = Some (case map_of fs (showNat i) of None \<Rightarrow> JUndefined | Some v \<Rightarrow> v)"
| "getIndex (JBool b) i = Some JUndefined"
| "getIndex (JNum n) i = Some JUndefined"

text \<open>Optional chaining \<open>v?.[i]\<close>: \<open>undefined\<close> where \<open>v[i]\<close> would throw.\<close>

definition optIndex :: "jsval \<Rightarrow> nat \<Rightarrow> jsval" where
  "optIndex v i = (case getIndex v i of None \<Rightarrow> JUndefined | Some x \<Rightarrow> x)"

section \<open>More built-in operations\<close>

text \<open>
  \<open>Array.prototype.map\<close> with a callback of element, index and array. Only an array has
  the method: on any other value the call throws. A callback that throws ends the map.
\<close>

fun arrayMap :: "jsval \<Rightarrow> (jsval \<Rightarrow> nat \<Rightarrow> jsval list \<Rightarrow> 'a option) \<Rightarrow> 'a list option" where
  "arrayMap (JArr xs) f = those (map (\<lambda>(index, x). f x index xs) (enumerate 0 xs))"
| "arrayMap JUndefined f = None"
| "arrayMap JNull f = None"
| "arrayMap (JBool b) f = None"
| "arrayMap (JNum n) f = None"
| "arrayMap (JStr s) f = None"
| "arrayMap (JObj fs) f = None"

text \<open>
  \<open>ToNumber\<close> for the relational comparisons of a \<open>length\<close> with a constant;
  \<open>None\<close> is \<open>NaN\<close>, for which every comparison is false. Arrays and strings always
  have a numeric length and other values have none; an object can carry an own entry called
  \<open>length\<close>, and where that entry is a string, an array or an object the conversion is
  outside this model and counts as \<open>NaN\<close>.
\<close>

fun toNumber :: "jsval \<Rightarrow> int option" where
  "toNumber (JNum n) = Some n"
| "toNumber JNull = Some 0"
| "toNumber (JBool b) = Some (if b then 1 else 0)"
| "toNumber JUndefined = None"
| "toNumber (JStr s) = None"
| "toNumber (JArr xs) = None"
| "toNumber (JObj fs) = None"

definition jsGreater :: "jsval \<Rightarrow> int \<Rightarrow> bool" where
  "jsGreater v n = (case toNumber v of None \<Rightarrow> False | Some k \<Rightarrow> n < k)"

definition jsLessEq :: "jsval \<Rightarrow> int \<Rightarrow> bool" where
  "jsLessEq v n = (case toNumber v of None \<Rightarrow> False | Some k \<Rightarrow> k \<le> n)"

definition jsGreaterEq :: "jsval \<Rightarrow> int \<Rightarrow> bool" where
  "jsGreaterEq v n = (case toNumber v of None \<Rightarrow> False | Some k \<Rightarrow> n \<le> k)"

text \<open>\<open>s.split(' ')\<close>: the pieces between the separator characters.\<close>

fun splitOn :: "char \<Rightarrow> string \<Rightarrow> string list" where
  "splitOn sep [] = [[]]"
| "splitOn sep (c # cs) =
     (if c = sep then [] # splitOn sep cs
      else (case splitOn sep cs of [] \<Rightarrow> [[c]] | p # ps \<Rightarrow> (c # p) # ps))"

text \<open>\<open>s.charAt(0)\<close>: the first character, or the empty string.\<close>

definition charAt0 :: "string \<Rightarrow> string" where
  "charAt0 s = take 1 s"

text \<open>\<open>s.padStart(2, '0')\<close>\<close>

definition padStart2 :: "string \<Rightarrow> string" where
  "padStart2 s = replicate (2 - length s) (CHR ''0'') @ s"

text \<open>
  \<open>s.replaceAll(pattern, replacement)\<close> with a string pattern and a replacement free of
  \<open>$\<close>: every occurrence of the pattern, found from left to right without overlap, is
  replaced. (The empty pattern matches before every character and at the end.)
\<close>

function replaceAll :: "string \<Rightarrow> string \<Rightarrow> string \<Rightarrow> string" where
  "replaceAll pat rep s =
     (if pat = [] then rep @ concat (map (\<lambda>c. c # rep) s)
      else if s = [] then []
      else if prefix pat s then rep @ replaceAll pat rep (drop (length pat) s)
      else hd s # replaceAll pat rep (tl s))"
  by pat_completeness auto
termination
  by (relation "measure (\<lambda>(pat, rep, s). length s)") auto

declare replaceAll.simps [simp del]

text \<open>
  The first occurrence of a pattern: the text before it and the text after it. This is
  how a lazy \<open>[\s\S]*?\<close> followed by a literal finds its end.
\<close>

fun splitAtFirst :: "string \<Rightarrow> string \<Rightarrow> (string \<times> string) option" where
  "splitAtFirst pat [] = (if pat = [] then Some ([], []) else None)"
| "splitAtFirst pat (c # cs) =
     (if prefix pat (c # cs) then Some ([], drop (length pat) (c # cs))
      else map_option (\<lambda>(head, tail). (c # head, tail)) (splitAtFirst pat cs))"

text \<open>
  \<open>GetSubstitution\<close>: how \<open>String.prototype.replace\<close> expands its replacement text.
  \<open>$$\<close> is a dollar sign, \<open>$&\<close> the match, \<open>$`\<close> the text before the match,
  \<open>$'\<close> the text after it, \<open>$n\<close> and \<open>$nn\<close> a capture group (two digits when they
  name a group, else one); any other \<open>$\<close> stays as it is.
\<close>

definition isDigit :: "char \<Rightarrow> bool" where
  "isDigit c = (c \<in> set ''0123456789'')"

definition digitValue :: "char \<Rightarrow> nat" where
  "digitValue c = of_char c - 48"

fun getSubstitution :: "string \<Rightarrow> string \<Rightarrow> string \<Rightarrow> string list \<Rightarrow> string \<Rightarrow> string" where
  "getSubstitution matched head tail captures [] = []"
| "getSubstitution matched head tail captures [c] = [c]"
| "getSubstitution matched head tail captures (c # d # t) =
     (if c \<noteq> CHR ''$'' then c # getSubstitution matched head tail captures (d # t)
      else if d = CHR ''$'' then CHR ''$'' # getSubstitution matched head tail captures t
      else if d = CHR ''&'' then matched @ getSubstitution matched head tail captures t
      else if d = CHR 0x60 then head @ getSubstitution matched head tail captures t
      else if d = CHR 0x27 then tail @ getSubstitution matched head tail captures t
      else if isDigit d then
        (case t of
           e # t' \<Rightarrow>
             if isDigit e \<and> 1 \<le> 10 * digitValue d + digitValue e
                \<and> 10 * digitValue d + digitValue e \<le> length captures
             then captures ! (10 * digitValue d + digitValue e - 1)
                    @ getSubstitution matched head tail captures t'
             else if 1 \<le> digitValue d \<and> digitValue d \<le> length captures
             then captures ! (digitValue d - 1) @ getSubstitution matched head tail captures t
             else c # d # getSubstitution matched head tail captures t
         | [] \<Rightarrow>
             if 1 \<le> digitValue d \<and> digitValue d \<le> length captures
             then captures ! (digitValue d - 1)
             else [c, d])
      else c # getSubstitution matched head tail captures (d # t))"

text \<open>
  \<open>JSON.stringify\<close> of an array of strings: each string quoted, with the quote, the
  backslash and the control characters escaped, separated by commas, in brackets.
\<close>

definition jsonEscape :: "char \<Rightarrow> string" where
  "jsonEscape c =
     (if c = CHR 0x22 then [CHR 0x5C, CHR 0x22]
      else if c = CHR 0x5C then [CHR 0x5C, CHR 0x5C]
      else if c = CHR 0x08 then [CHR 0x5C, CHR ''b'']
      else if c = CHR 0x0C then [CHR 0x5C, CHR ''f'']
      else if c = CHR 0x0A then [CHR 0x5C, CHR ''n'']
      else if c = CHR 0x0D then [CHR 0x5C, CHR ''r'']
      else if c = CHR 0x09 then [CHR 0x5C, CHR ''t'']
      else if (of_char c :: nat) < 32 then
        [CHR 0x5C, CHR ''u'', CHR ''0'', CHR ''0'',
         ''0123456789abcdef'' ! ((of_char c :: nat) div 16),
         ''0123456789abcdef'' ! ((of_char c :: nat) mod 16)]
      else [c])"

definition jsonQuote :: "string \<Rightarrow> string" where
  "jsonQuote s = [CHR 0x22] @ concat (map jsonEscape s) @ [CHR 0x22]"

definition jsonStringify :: "string list \<Rightarrow> string" where
  "jsonStringify xs = ''['' @ join '','' (map jsonQuote xs) @ '']''"

section \<open>The note's path: collision avoidance in \<open>createNote\<close>\<close>

text \<open>
  The vault answers \<open>getAbstractFileByPath\<close> with a file, a folder or nothing;
  \<open>createFolder\<close> succeeds or throws.
\<close>

datatype abstractFile = TFile | TFolder

record host =
  getAbstractFileByPath :: "string \<Rightarrow> abstractFile option"
  createFolderSucceeds :: "string \<Rightarrow> bool"

text \<open>\<open>folderPath.replace(/\/+$/, '')\<close>\<close>

definition trimTrailingSlashes :: "string \<Rightarrow> string" where
  "trimTrailingSlashes s = rev (dropWhile (\<lambda>c. c = CHR ''/'') (rev s))"

text \<open>
  The folder after the \<open>if (folderPath)\<close> block: trailing slashes trimmed, the folder
  created when the vault does not have it, and the root when that creation fails.
\<close>

definition noteFolder :: "host \<Rightarrow> string \<Rightarrow> string" where
  "noteFolder h defaultFolder =
     (if defaultFolder \<noteq> [] then
        (let folderPath = trimTrailingSlashes defaultFolder in
         if getAbstractFileByPath h folderPath = None \<and> \<not> createFolderSucceeds h folderPath
         then [] else folderPath)
      else [])"

text \<open>The first path tried, with the bare base filename.\<close>

definition firstFilePath :: "host \<Rightarrow> string \<Rightarrow> string \<Rightarrow> string" where
  "firstFilePath h defaultFolder baseFilename =
     (if defaultFolder \<noteq> [] then noteFolder h defaultFolder @ ''/'' @ baseFilename @ ''.md''
      else baseFilename @ ''.md'')"

text \<open>The path computed in the loop body for a given suffix.\<close>

definition suffixedFilePath :: "string \<Rightarrow> string \<Rightarrow> nat \<Rightarrow> string" where
  "suffixedFilePath folderPath baseFilename suffixNo =
     (let filename = baseFilename @ '' ('' @ showNat suffixNo @ '')'' in
      if folderPath \<noteq> [] then trimTrailingSlashes folderPath @ ''/'' @ filename @ ''.md''
      else filename @ ''.md'')"

text \<open>
  \<open>while (file instanceof TFile) { ...; suffix++ }\<close>. The loop has no bound, so it is a
  partial function: \<open>None\<close> is the run that never leaves the loop.
\<close>

partial_function (option) suffixLoop ::
  "host \<Rightarrow> string \<Rightarrow> string \<Rightarrow> string \<Rightarrow> nat \<Rightarrow> string option" where
  "suffixLoop h folderPath baseFilename filePath suffixNo =
     (if getAbstractFileByPath h filePath = Some TFile
      then suffixLoop h folderPath baseFilename
             (suffixedFilePath folderPath baseFilename suffixNo) (suffixNo + 1)
      else Some filePath)"

definition resolveFilePath :: "host \<Rightarrow> string \<Rightarrow> string \<Rightarrow> string option" where
  "resolveFilePath h defaultFolder baseFilename =
     suffixLoop h (noteFolder h defaultFolder) baseFilename
       (firstFilePath h defaultFolder baseFilename) 1"

text \<open>
  The paths as the specification names them: \<open>folder/base.md\<close> first, then
  \<open>folder/base (n).md\<close> for \<open>n = 1, 2, 3, ...\<close>; in the root there is no folder part.
\<close>

definition claimedPath :: "string \<Rightarrow> string \<Rightarrow> nat \<Rightarrow> string" where
  "claimedPath folder base n =
     (if folder = [] then [] else folder @ ''/'') @ base
     @ (if n = 0 then [] else '' ('' @ showNat n @ '')'') @ ''.md''"

text \<open>
  The folder the note goes to, when the vault can take it there: the root when no folder
  is set, else the folder set, without trailing slashes, when it is not empty and exists
  or can be created.
\<close>

definition folderAvailable :: "host \<Rightarrow> string \<Rightarrow> string \<Rightarrow> bool" where
  "folderAvailable h defaultFolder folder =
     (defaultFolder = [] \<and> folder = []
      \<or> folder = trimTrailingSlashes defaultFolder \<and> folder \<noteq> []
        \<and> (getAbstractFileByPath h folder \<noteq> None \<or> createFolderSucceeds h folder))"

definition isFile :: "host \<Rightarrow> string \<Rightarrow> bool" where
  "isFile h p = (getAbstractFileByPath h p = Some TFile)"

text \<open>A vault that holds exactly the listed files, where folder creation succeeds.\<close>

definition vaultOf :: "string list \<Rightarrow> host" where
  "vaultOf files =
     \<lparr> getAbstractFileByPath = (\<lambda>p. if p \<in> set files then Some TFile else None),
       createFolderSucceeds = (\<lambda>p. True) \<rparr>"

text \<open>A vault that holds the file \<open>X.md\<close> and no folder, and that refuses to create one.\<close>

definition readOnlyVault :: host where
  "readOnlyVault =
     \<lparr> getAbstractFileByPath = (\<lambda>p. if p = ''X.md'' then Some TFile else None),
       createFolderSucceeds = (\<lambda>p. False) \<rparr>"

section \<open>The citation formatters\<close>

datatype CitationStyle =
  Harvard | Vancouver | NoneStyle | APA | Chicago | AMA | AP | Canadian | Oxford

text \<open>
  The guard every formatter starts with:
  \<open>!message.author || !message.issued || !message.title || !message['container-title']\<close>.
\<close>

definition missingData :: "jsval \<Rightarrow> bool option" where
  "missingData message = do {
     author \<leftarrow> getProp message ''author'';
     issued \<leftarrow> getProp message ''issued'';
     title \<leftarrow> getProp message ''title'';
     containerTitle \<leftarrow> getProp message ''container-title'';
     Some (\<not> truthy author \<or> \<not> truthy issued \<or> \<not> truthy title \<or> \<not> truthy containerTitle)
   }"

text \<open>\<open>message.issued['date-parts'][0][0]\<close>\<close>

definition issuedYear :: "jsval \<Rightarrow> jsval option" where
  "issuedYear message = do {
     issued \<leftarrow> getProp message ''issued'';
     dateParts \<leftarrow> getProp issued ''date-parts'';
     first \<leftarrow> getIndex dateParts 0;
     getIndex first 0
   }"

text \<open>\<open>message.title[0]\<close>, \<open>message['container-title'][0]\<close>\<close>

definition firstOf :: "jsval \<Rightarrow> string \<Rightarrow> jsval option" where
  "firstOf message k = do { v \<leftarrow> getProp message k; getIndex v 0 }"

text \<open>\<open>`${author.family}, ${author.given?.[0]}.`\<close>\<close>

definition familyInitial :: "jsval \<Rightarrow> string option" where
  "familyInitial author = do {
     family \<leftarrow> getProp author ''family'';
     given \<leftarrow> getProp author ''given'';
     Some (toStr family @ '', '' @ toStr (optIndex given 0) @ ''.'')
   }"

text \<open>\<open>`${author.given} ${author.family}`\<close>\<close>

definition givenFamily :: "jsval \<Rightarrow> string option" where
  "givenFamily author = do {
     given \<leftarrow> getProp author ''given'';
     family \<leftarrow> getProp author ''family'';
     Some (toStr given @ '' '' @ toStr family)
   }"

definition formatHarvardCitation :: "jsval \<Rightarrow> string option" where
  "formatHarvardCitation message = do {
     missing \<leftarrow> missingData message;
     if missing then Some ''Could not generate Harvard citation due to missing data.''
     else do {
       authorsArray \<leftarrow> getProp message ''author'';
       mapped \<leftarrow> arrayMap authorsArray (\<lambda>author index array. familyInitial author);
       let authors = join '', '' mapped;
       year \<leftarrow> issuedYear message;
       if \<not> truthy year
       then Some ''Could not generate Harvard citation due to missing year data.''
       else do {
         title \<leftarrow> firstOf message ''title'';
         journal \<leftarrow> firstOf message ''container-title'';
         doi \<leftarrow> getProp message ''DOI'';
         accessedDate \<leftarrow> getProp message ''date-accessed'';
         Some (authors @ '' ('' @ toStr year @ '') '' @ toStr title @ ''. *'' @ toStr journal
               @ ''*. Available at: [https://doi.org/'' @ toStr doi @ ''] (Accessed: ''
               @ toStr accessedDate @ '').'')
       }
     }
   }"

text \<open>The callback of the Vancouver author map.\<close>

definition vancouverAuthor :: "jsval \<Rightarrow> nat \<Rightarrow> jsval list \<Rightarrow> string option" where
  "vancouverAuthor author index array = do {
     family \<leftarrow> getProp author ''family'';
     given \<leftarrow> getProp author ''given'';
     let authorStr = toStr family @ '' '' @ toStr (optIndex given 0);
     if length array > 3 \<and> index = 2 then Some (authorStr @ '', et al'')
     else if length array \<le> 3 \<or> index < 3 then Some (authorStr @ ''.'')
     else Some []
   }"

definition vancouverAuthors :: "jsval \<Rightarrow> string option" where
  "vancouverAuthors authorsArray = do {
     mapped \<leftarrow> arrayMap authorsArray vancouverAuthor;
     Some (join '' '' (filter (\<lambda>author. author \<noteq> '', et al'' \<and> author \<noteq> []) mapped))
   }"

definition formatVancouverCitation :: "jsval \<Rightarrow> string option" where
  "formatVancouverCitation message = do {
     missing \<leftarrow> missingData message;
     if missing then Some ''Could not generate Vancouver citation due to missing data.''
     else do {
       authorsArray \<leftarrow> getProp message ''author'';
       authors \<leftarrow> vancouverAuthors authorsArray;
       year \<leftarrow> issuedYear message;
       if \<not> truthy year
       then Some ''Could not generate Vancouver citation due to missing year data.''
       else do {
         title \<leftarrow> firstOf message ''title'';
         journal \<leftarrow> firstOf message ''container-title'';
         doi \<leftarrow> getProp message ''DOI'';
         Some (authors @ '' '' @ toStr title @ ''. '' @ toStr journal @ ''. '' @ toStr year
               @ ''; Available from: [https://doi.org/'' @ toStr doi @ ''].'')
       }
     }
   }"

text \<open>
  The author list of the APA style: one, two, three to twenty, and more than twenty
  authors are joined differently.
\<close>

definition apaAuthors :: "jsval \<Rightarrow> string option" where
  "apaAuthors authorsArray = do {
     len \<leftarrow> getProp authorsArray ''length'';
     if len = JNum 1 then do {
       a0 \<leftarrow> getIndex authorsArray 0;
       familyInitial a0
     }
     else if len = JNum 2 then do {
       a0 \<leftarrow> getIndex authorsArray 0;
       s0 \<leftarrow> familyInitial a0;
       a1 \<leftarrow> getIndex authorsArray 1;
       s1 \<leftarrow> familyInitial a1;
       Some (s0 @ '' & '' @ s1)
     }
     else if jsGreater len 2 \<and> jsLessEq len 20 then do {
       mapped \<leftarrow> arrayMap authorsArray (\<lambda>author index array. do {
         authorString \<leftarrow> familyInitial author;
         Some (if index = length array - 1 then ''& '' @ authorString else authorString)
       });
       Some (join '', '' mapped)
     }
     else if jsGreater len 20 then
       (case authorsArray of
          JArr xs \<Rightarrow> do {
            mapped \<leftarrow> arrayMap (JArr (take 19 xs)) (\<lambda>author index array. familyInitial author);
            lastAuthor \<leftarrow> getIndex authorsArray (length xs - 1);
            lastString \<leftarrow> familyInitial lastAuthor;
            Some (join '', '' mapped @ '', ..., '' @ lastString)
          }
        | _ \<Rightarrow> None)
     else Some []
   }"

text \<open>
  The tail shared by several styles is written out in each, as in the source: volume,
  issue and pages when present, then the DOI, or else the URL.
\<close>

definition formatAPACitation :: "jsval \<Rightarrow> string option" where
  "formatAPACitation message = do {
     missing \<leftarrow> missingData message;
     if missing then Some ''Could not generate APA citation due to missing data.''
     else do {
       authorsArray \<leftarrow> getProp message ''author'';
       authors \<leftarrow> apaAuthors authorsArray;
       year \<leftarrow> issuedYear message;
       if \<not> truthy year
       then Some ''Could not generate APA citation due to missing year data.''
       else do {
         title \<leftarrow> firstOf message ''title'';
         journal \<leftarrow> firstOf message ''container-title'';
         volume \<leftarrow> getProp message ''volume'';
         issue \<leftarrow> getProp message ''issue'';
         pages \<leftarrow> getProp message ''page'';
         doi \<leftarrow> getProp message ''DOI'';
         url \<leftarrow> getProp message ''URL'';
         Some (authors @ '' ('' @ toStr year @ ''). '' @ toStr title @ ''. *'' @ toStr journal
               @ ''*,''
               @ (if truthy volume then '' *'' @ toStr volume @ ''*'' else [])
               @ (if truthy issue then ''('' @ toStr issue @ '')'' else [])
               @ (if truthy pages then '', '' @ toStr pages else [])
               @ (if truthy doi then ''. '' @ toStr doi
                  else if truthy url then ''. Retrieved from '' @ toStr url else []))
       }
     }
   }"

definition chicagoAuthors :: "jsval \<Rightarrow> string option" where
  "chicagoAuthors authorsArray = do {
     len \<leftarrow> getProp authorsArray ''length'';
     if len = JNum 1 then do {
       a0 \<leftarrow> getIndex authorsArray 0;
       givenFamily a0
     }
     else if len = JNum 2 then do {
       a0 \<leftarrow> getIndex authorsArray 0;
       s0 \<leftarrow> givenFamily a0;
       a1 \<leftarrow> getIndex authorsArray 1;
       s1 \<leftarrow> givenFamily a1;
       Some (s0 @ '' and '' @ s1)
     }
     else if len = JNum 3 then do {
       a0 \<leftarrow> getIndex authorsArray 0;
       s0 \<leftarrow> givenFamily a0;
       a1 \<leftarrow> getIndex authorsArray 1;
       s1 \<leftarrow> givenFamily a1;
       a2 \<leftarrow> getIndex authorsArray 2;
       s2 \<leftarrow> givenFamily a2;
       Some (s0 @ '', '' @ s1 @ '', and '' @ s2)
     }
     else if jsGreater len 3 then do {
       a0 \<leftarrow> getIndex authorsArray 0;
       s0 \<leftarrow> givenFamily a0;
       Some (s0 @ '' et al.'')
     }
     else Some []
   }"

definition formatChicagoCitation :: "jsval \<Rightarrow> string option" where
  "formatChicagoCitation message = do {
     missing \<leftarrow> missingData message;
     if missing then Some ''Could not generate Chicago citation due to missing data.''
     else do {
       authorsArray \<leftarrow> getProp message ''author'';
       authors \<leftarrow> chicagoAuthors authorsArray;
       year \<leftarrow> issuedYear message;
       if \<not> truthy year
       then Some ''Could not generate Chicago citation due to missing year data.''
       else do {
         title0 \<leftarrow> firstOf message ''title'';
         journal0 \<leftarrow> firstOf message ''container-title'';
         let title = [CHR 0x22] @ toStr title0 @ [CHR 0x22];
         let journal = ''*'' @ toStr journal0 @ ''*'';
         volume \<leftarrow> getProp message ''volume'';
         issue \<leftarrow> getProp message ''issue'';
         pages \<leftarrow> getProp message ''page'';
         doi \<leftarrow> getProp message ''DOI'';
         url \<leftarrow> getProp message ''URL'';
         Some (authors @ '', '' @ title @ '', '' @ journal
               @ (if truthy volume \<and> truthy issue \<and> truthy pages
                  then '' '' @ toStr volume @ '', no. '' @ toStr issue @ '' ('' @ toStr year
                       @ ''): '' @ toStr pages @ ''.''
                  else if truthy volume \<and> truthy year
                  then '' '' @ toStr volume @ '' ('' @ toStr year @ '').''
                  else if truthy year then '' ('' @ toStr year @ '').''
                  else [])
               @ (if truthy doi then '' https://doi.org/'' @ toStr doi @ ''.''
                  else if truthy url then '' '' @ toStr url @ ''.'' else []))
       }
     }
   }"

text \<open>
  The callback of the AMA author map: the family name, then the initial of every word of
  the given name. \<open>split\<close> is a method of strings only.
\<close>

definition amaAuthor :: "jsval \<Rightarrow> string option" where
  "amaAuthor author = do {
     family \<leftarrow> getProp author ''family'';
     given \<leftarrow> getProp author ''given'';
     if truthy given then
       (case given of
          JStr g \<Rightarrow>
            Some (toStr family
                  @ concat (map (\<lambda>namePart. '' '' @ charAt0 namePart @ ''.'') (splitOn CHR '' '' g)))
        | _ \<Rightarrow> None)
     else Some (toStr family)
   }"

definition amaAuthors :: "jsval \<Rightarrow> string option" where
  "amaAuthors authorsArray = do {
     len \<leftarrow> getProp authorsArray ''length'';
     if jsGreaterEq len 1 then do {
       mapped \<leftarrow> arrayMap authorsArray (\<lambda>author index array. amaAuthor author);
       Some (join '', '' mapped)
     }
     else Some []
   }"

definition formatAMACitation :: "jsval \<Rightarrow> string option" where
  "formatAMACitation message = do {
     missing \<leftarrow> missingData message;
     if missing then Some ''Could not generate AMA citation due to missing data.''
     else do {
       authorsArray \<leftarrow> getProp message ''author'';
       authors \<leftarrow> amaAuthors authorsArray;
       year \<leftarrow> issuedYear message;
       if \<not> truthy year
       then Some ''Could not generate AMA citation due to missing year data.''
       else do {
         title \<leftarrow> firstOf message ''title'';
         journal \<leftarrow> firstOf message ''container-title'';
         volume \<leftarrow> getProp message ''volume'';
         issue \<leftarrow> getProp message ''issue'';
         pages \<leftarrow> getProp message ''page'';
         doi \<leftarrow> getProp message ''DOI'';
         url \<leftarrow> getProp message ''URL'';
         accessedDate \<leftarrow> getProp message ''date-accessed'';
         Some (authors @ ''. '' @ toStr title @ ''. *'' @ toStr journal @ ''*.''
               @ (if truthy year then '' '' @ toStr year @ '';'' else [])
               @ (if truthy volume then toStr volume else [])
               @ (if truthy issue then ''('' @ toStr issue @ '')'' else [])
               @ (if truthy pages then '':'' @ toStr pages @ ''.'' else ''.'')
               @ (if truthy doi then '' doi:'' @ toStr doi
                  else if truthy url
                  then '' Available at: '' @ toStr url @ ''. Accessed '' @ toStr accessedDate
                  else []))
       }
     }
   }"

definition formatAPCitation :: "jsval \<Rightarrow> string option" where
  "formatAPCitation message = do {
     missing \<leftarrow> missingData message;
     if missing then Some ''Could not generate AP citation due to missing data.''
     else do {
       authorsArray \<leftarrow> getProp message ''author'';
       mapped \<leftarrow> arrayMap authorsArray (\<lambda>author index array. familyInitial author);
       let authors = join '', '' mapped;
       year \<leftarrow> issuedYear message;
       if \<not> truthy year
       then Some ''Could not generate AP citation due to missing year data.''
       else do {
         title \<leftarrow> firstOf message ''title'';
         journal \<leftarrow> firstOf message ''container-title'';
         doi \<leftarrow> getProp message ''DOI'';
         volume \<leftarrow> getProp message ''volume'';
         issue \<leftarrow> getProp message ''issue'';
         pages \<leftarrow> getProp message ''page'';
         url \<leftarrow> getProp message ''URL'';
         Some (authors @ '' ('' @ toStr year @ ''). '' @ toStr title @ ''. _'' @ toStr journal
               @ ''_''
               @ (if truthy volume then '', '' @ toStr volume else [])
               @ (if truthy issue then ''('' @ toStr issue @ '')'' else [])
               @ (if truthy pages then '', '' @ toStr pages @ ''.'' else ''.'')
               @ (if truthy doi then '' doi: '' @ toStr doi
                  else if truthy url then '' Retrieved from '' @ toStr url else []))
       }
     }
   }"

definition canadianAuthors :: "jsval \<Rightarrow> string option" where
  "canadianAuthors authorsArray = do {
     len \<leftarrow> getProp authorsArray ''length'';
     if len = JNum 1 then do {
       a0 \<leftarrow> getIndex authorsArray 0;
       givenFamily a0
     }
     else do {
       mapped \<leftarrow> arrayMap authorsArray (\<lambda>author index array. givenFamily author);
       Some (join '', and '' mapped)
     }
   }"

definition formatCanadianCitation :: "jsval \<Rightarrow> string option" where
  "formatCanadianCitation message = do {
     missing \<leftarrow> missingData message;
     if missing then Some ''Could not generate Canadian citation due to missing data.''
     else do {
       authorsArray \<leftarrow> getProp message ''author'';
       authors \<leftarrow> canadianAuthors authorsArray;
       year \<leftarrow> issuedYear message;
       if \<not> truthy year
       then Some ''Could not generate Canadian citation due to missing year data.''
       else do {
         title \<leftarrow> firstOf message ''title'';
         journal \<leftarrow> firstOf message ''container-title'';
         volume \<leftarrow> getProp message ''volume'';
         issue \<leftarrow> getProp message ''issue'';
         pages \<leftarrow> getProp message ''page'';
         doi \<leftarrow> getProp message ''DOI'';
         accessedDate \<leftarrow> getProp message ''date-accessed'';
         url \<leftarrow> getProp message ''URL'';
         Some (authors @ ''. '' @ toStr year @ ''. '' @ toStr title @ ''. _'' @ toStr journal
               @ ''_''
               @ (if truthy volume then '', '' @ toStr volume else [])
               @ (if truthy issue then ''('' @ toStr issue @ '')'' else [])
               @ (if truthy pages then '', '' @ toStr pages @ ''.'' else ''.'')
               @ (if truthy doi
                  then ''. doi: '' @ toStr doi @ '' [Accessed '' @ toStr accessedDate @ ''].''
                  else if truthy url
                  then ''. [Online]. Available: '' @ toStr url @ '' [Accessed ''
                       @ toStr accessedDate @ ''].''
                  else '' [Accessed '' @ toStr accessedDate @ ''].''))
       }
     }
   }"

definition oxfordAuthors :: "jsval \<Rightarrow> string option" where
  "oxfordAuthors authorsArray = do {
     len \<leftarrow> getProp authorsArray ''length'';
     if len = JNum 1 then do {
       a0 \<leftarrow> getIndex authorsArray 0;
       s0 \<leftarrow> givenFamily a0;
       Some (s0 @ '','')
     }
     else do {
       mapped \<leftarrow> arrayMap authorsArray (\<lambda>author index array. do {
         authorString \<leftarrow> givenFamily author;
         Some (if index < length array - 1 then authorString @ '','' else authorString)
       });
       Some (join '' and '' mapped)
     }
   }"

text \<open>
  The Oxford style sets the title in typographic single quotes, U+2018 and U+2019. They
  are the only characters of the program's texts outside ASCII, and stand here as the
  bytes of their UTF-8 encoding, as the note file holds them.
\<close>

definition leftQuote :: string where
  "leftQuote = [CHR 0xE2, CHR 0x80, CHR 0x98]"

definition rightQuote :: string where
  "rightQuote = [CHR 0xE2, CHR 0x80, CHR 0x99]"

definition formatOxfordReferenceCitation :: "jsval \<Rightarrow> string option" where
  "formatOxfordReferenceCitation message = do {
     missing \<leftarrow> missingData message;
     if missing then Some ''Could not generate Oxford Reference citation due to missing data.''
     else do {
       authorsArray \<leftarrow> getProp message ''author'';
       authors \<leftarrow> oxfordAuthors authorsArray;
       year \<leftarrow> issuedYear message;
       if \<not> truthy year
       then Some ''Could not generate Oxford Reference citation due to missing year data.''
       else do {
         title0 \<leftarrow> firstOf message ''title'';
         journal0 \<leftarrow> firstOf message ''container-title'';
         let title = leftQuote @ toStr title0 @ rightQuote @ '','';
         let journal = ''*'' @ toStr journal0 @ ''*'';
         volume \<leftarrow> getProp message ''volume'';
         issue \<leftarrow> getProp message ''issue'';
         pages \<leftarrow> getProp message ''page'';
         doi \<leftarrow> getProp message ''DOI'';
         url \<leftarrow> getProp message ''URL'';
         accessedDate \<leftarrow> getProp message ''date-accessed'';
         Some (authors @ '' '' @ title @ '' '' @ journal @ '',''
               @ (if truthy volume then '' vol. '' @ toStr volume else [])
               @ (if truthy issue then '', no. '' @ toStr issue else [])
               @ (if truthy year then '' ('' @ toStr year @ '')'' else [])
               @ (if truthy pages then '', pp. '' @ toStr pages else [])
               @ ''.''
               @ (if truthy doi then '' doi: '' @ toStr doi
                  else if truthy url
                  then '' Available at: '' @ toStr url @ '' (Accessed '' @ toStr accessedDate
                       @ '')''
                  else []))
       }
     }
   }"

text \<open>
  The chain \<open>if (citationStyle === 'Harvard') ... else if (citationStyle === 'None')\<close>,
  which \<open>createNote\<close> and \<open>changeCitationStyle\<close> both carry, starting from
  \<open>citationText = ''\<close>.
\<close>

fun formatCitation :: "CitationStyle \<Rightarrow> jsval \<Rightarrow> string option" where
  "formatCitation Harvard message = formatHarvardCitation message"
| "formatCitation Vancouver message = formatVancouverCitation message"
| "formatCitation APA message = formatAPACitation message"
| "formatCitation Chicago message = formatChicagoCitation message"
| "formatCitation AMA message = formatAMACitation message"
| "formatCitation AP message = formatAPCitation message"
| "formatCitation Canadian message = formatCanadianCitation message"
| "formatCitation Oxford message = formatOxfordReferenceCitation message"
| "formatCitation NoneStyle message = Some []"

text \<open>The name each formatter prints in its diagnostics.\<close>

fun diagnosticName :: "CitationStyle \<Rightarrow> string" where
  "diagnosticName Harvard = ''Harvard''"
| "diagnosticName Vancouver = ''Vancouver''"
| "diagnosticName APA = ''APA''"
| "diagnosticName Chicago = ''Chicago''"
| "diagnosticName AMA = ''AMA''"
| "diagnosticName AP = ''AP''"
| "diagnosticName Canadian = ''Canadian''"
| "diagnosticName Oxford = ''Oxford Reference''"
| "diagnosticName NoneStyle = []"

section \<open>The note: \<open>createNote\<close>\<close>

text \<open>The wall clock, as \<open>new Date()\<close> is read: year, month from 0, day of the month.\<close>

record currentDate =
  getFullYear :: nat
  getMonth :: nat
  getDate :: nat

text \<open>\<open>`${yearAccessed}-${month}-${day}`\<close> with month and day padded to two digits.\<close>

definition accessedDate :: "currentDate \<Rightarrow> string" where
  "accessedDate d =
     showNat (getFullYear d) @ ''-'' @ padStart2 (showNat (getMonth d + 1)) @ ''-''
     @ padStart2 (showNat (getDate d))"

text \<open>
  The metadata block is built by appending one line \<open>Key: value\<close> after the other. The
  model collects the pairs of key and value in the order of the appends;
  \<open>frontmatterLines\<close> is the text they make.
\<close>

definition frontmatterLines :: "(string \<times> string) list \<Rightarrow> string" where
  "frontmatterLines entries = concat (map (\<lambda>(k, v). k @ '': '' @ v @ ''\<newline>'') entries)"

text \<open>\<open>if (message[k]) content += `Label: ${message[k]}\n`\<close>\<close>

definition fieldEntry :: "jsval \<Rightarrow> string \<Rightarrow> string \<Rightarrow> (string \<times> string) list option" where
  "fieldEntry message k label = do {
     v \<leftarrow> getProp message k;
     Some (if truthy v then [(label, toStr v)] else [])
   }"

text \<open>\<open>if (message[k] && message[k][0]) content += `Label: ${message[k][0]}\n`\<close>\<close>

definition firstEntry :: "jsval \<Rightarrow> string \<Rightarrow> string \<Rightarrow> (string \<times> string) list option" where
  "firstEntry message k label = do {
     v \<leftarrow> getProp message k;
     if truthy v then do {
       v0 \<leftarrow> getIndex v 0;
       Some (if truthy v0 then [(label, toStr v0)] else [])
     }
     else Some []
   }"

text \<open>
  The publication date, \<open>YYYY[-MM[-DD]]\<close>, written when
  \<open>message.issued && message.issued['date-parts'] && message.issued['date-parts'][0]\<close>.
\<close>

definition publicationDateEntry :: "jsval \<Rightarrow> (string \<times> string) list option" where
  "publicationDateEntry message = do {
     issued \<leftarrow> getProp message ''issued'';
     if truthy issued then do {
       allParts \<leftarrow> getProp issued ''date-parts'';
       if truthy allParts then do {
         dateParts \<leftarrow> getIndex allParts 0;
         if truthy dateParts then do {
           year \<leftarrow> getIndex dateParts 0;
           month \<leftarrow> getIndex dateParts 1;
           day \<leftarrow> getIndex dateParts 2;
           Some [(''Publication_Date'',
                  toStr year
                  @ (if truthy month then ''-'' @ padStart2 (toStr month) else [])
                  @ (if truthy day then ''-'' @ padStart2 (toStr day) else []))]
         }
         else Some []
       }
       else Some []
     }
     else Some []
   }"

text \<open>The authors property of \<open>createNote\<close>: \<open>"Given Family"\<close> strings.\<close>

definition createNoteAuthors :: "jsval \<Rightarrow> string list option" where
  "createNoteAuthors message = do {
     authorsArray \<leftarrow> getProp message ''author'';
     if truthy authorsArray
     then arrayMap authorsArray (\<lambda>author index array. givenFamily author)
     else Some []
   }"

text \<open>\<open>if (message.ISBN) content += `ISBN: ${message.ISBN[0]}\n`\<close>\<close>

definition createNoteISBN :: "jsval \<Rightarrow> (string \<times> string) list option" where
  "createNoteISBN message = do {
     isbn \<leftarrow> getProp message ''ISBN'';
     if truthy isbn then do {
       isbn0 \<leftarrow> getIndex isbn 0;
       Some [(''ISBN'', toStr isbn0)]
     }
     else Some []
   }"

definition createNoteFrontmatter ::
  "jsval \<Rightarrow> currentDate \<Rightarrow> (string \<times> string) list option" where
  "createNoteFrontmatter message today = do {
     authors \<leftarrow> createNoteAuthors message;
     journal \<leftarrow> firstEntry message ''container-title'' ''Journal'';
     volume \<leftarrow> fieldEntry message ''volume'' ''Volume'';
     page \<leftarrow> fieldEntry message ''page'' ''Page'';
     issue \<leftarrow> fieldEntry message ''issue'' ''Issue'';
     publicationDate \<leftarrow> publicationDateEntry message;
     doi \<leftarrow> fieldEntry message ''DOI'' ''DOI'';
     type \<leftarrow> fieldEntry message ''type'' ''Type'';
     url \<leftarrow> fieldEntry message ''URL'' ''URL'';
     isbn \<leftarrow> createNoteISBN message;
     Some ([(''tags'', ''[CreatedBy/HappyRef]'')]
           @ (if authors \<noteq> [] then [(''authors'', jsonStringify authors)] else [])
           @ journal @ volume @ page @ issue @ publicationDate @ doi @ type @ url @ isbn
           @ [(''Date Accessed'', accessedDate today)])
   }"

text \<open>
  The abstract. The first \<open>replaceAll\<close> of the source is called with the pattern only,
  so its replacement is \<open>undefined\<close>, which \<open>replaceAll\<close> converts to a string.
\<close>

definition sanitizeAbstract :: "string \<Rightarrow> string" where
  "sanitizeAbstract abstract0 =
     (let a1 = replaceAll ''<jats:title>Abstract</jats:title>'' (toStr JUndefined) abstract0;
          a2 = replaceAll ''<jats:sec>'' [] a1;
          a3 = replaceAll ''</jats:sec>'' [] a2;
          a4 = replaceAll ''<jats:title>'' ''### '' a3;
          a5 = replaceAll ''</jats:title>'' [] a4;
          a6 = replaceAll ''<jats:p>'' [] a5;
          a7 = replaceAll ''</jats:p>'' [] a6;
          a8 = replaceAll [CHR ''<'', CHR 0x09] [] a7;
          a9 = replaceAll ''<\<newline>\<newline>'' ''\<newline>'' a8
      in replaceAll ''  '' [] a9)"

text \<open>The text after the heading \<open>## Abstract\<close>. Only a string has \<open>replaceAll\<close>.\<close>

definition abstractSection :: "jsval \<Rightarrow> string option" where
  "abstractSection message = do {
     abstract \<leftarrow> getProp message ''abstract'';
     if truthy abstract then
       (case abstract of
          JStr a \<Rightarrow> Some (sanitizeAbstract a @ ''\<newline>'')
        | _ \<Rightarrow> None)
     else Some (''*There is no abstract in this citation'' @ [CHR 0x27]
                @ ''s metadata*\<newline>'')
   }"

text \<open>\<open>message.title?.[0] || "Untitled"\<close>\<close>

definition titleOrUntitled :: "jsval \<Rightarrow> string option" where
  "titleOrUntitled message = do {
     title \<leftarrow> getProp message ''title'';
     Some (if truthy (optIndex title 0) then toStr (optIndex title 0) else ''Untitled'')
   }"

text \<open>
  The content \<open>createNote\<close> writes, for the citation style of the settings and the
  date of the day.
\<close>

definition createNoteContent :: "CitationStyle \<Rightarrow> currentDate \<Rightarrow> jsval \<Rightarrow> string option" where
  "createNoteContent citationStyle today message = do {
     entries \<leftarrow> createNoteFrontmatter message today;
     title \<leftarrow> titleOrUntitled message;
     citationText \<leftarrow> formatCitation citationStyle message;
     abstract \<leftarrow> abstractSection message;
     Some (''---\<newline>'' @ frontmatterLines entries @ ''---\<newline>\<newline>''
           @ ''# '' @ title @ ''\<newline>\<newline>''
           @ (if citationText \<noteq> []
              then ''## Citation\<newline>'' @ citationText @ ''\<newline>\<newline>---\<newline>\<newline>''
              else [])
           @ ''## Abstract\<newline>'' @ abstract)
   }"

section \<open>Rewriting the metadata block: \<open>updateYAMLFrontmatter\<close>\<close>

text \<open>
  \<open>/^---([\s\S]*?)---/\<close>: the text starts with three dashes; the group is the shortest
  text up to the next three dashes. The result is the group and the text after the match.
\<close>

definition frontmatterMatch :: "string \<Rightarrow> (string \<times> string) option" where
  "frontmatterMatch fileContent =
     (if take 3 fileContent = ''---'' then splitAtFirst ''---'' (drop 3 fileContent) else None)"

text \<open>\<open>s.replace(pattern, replacement)\<close> with a string pattern: the first occurrence.\<close>

definition stringReplace :: "string \<Rightarrow> string \<Rightarrow> string \<Rightarrow> string" where
  "stringReplace s pat rep =
     (case splitAtFirst pat s of
        None \<Rightarrow> s
      | Some (head, tail) \<Rightarrow> head @ getSubstitution pat head tail [] rep @ tail)"

definition updateAuthors :: "jsval \<Rightarrow> (string \<times> string) list option" where
  "updateAuthors metadata = do {
     authorsArray \<leftarrow> getProp metadata ''author'';
     if truthy authorsArray then do {
       len \<leftarrow> getProp authorsArray ''length'';
       if jsGreater len 0 then do {
         authors \<leftarrow> arrayMap authorsArray (\<lambda>author index array. givenFamily author);
         Some [(''authors'', jsonStringify authors)]
       }
       else Some []
     }
     else Some []
   }"

definition updateDateAccessed :: "jsval \<Rightarrow> currentDate \<Rightarrow> (string \<times> string) list option" where
  "updateDateAccessed metadata today = do {
     stored \<leftarrow> getProp metadata ''date-accessed'';
     Some (if truthy stored then [(''Date Accessed'', toStr stored)]
           else [(''Date Accessed'', accessedDate today)])
   }"

definition updateFrontmatter ::
  "jsval \<Rightarrow> currentDate \<Rightarrow> (string \<times> string) list option" where
  "updateFrontmatter metadata today = do {
     authors \<leftarrow> updateAuthors metadata;
     journal \<leftarrow> firstEntry metadata ''container-title'' ''Journal'';
     volume \<leftarrow> fieldEntry metadata ''volume'' ''Volume'';
     page \<leftarrow> fieldEntry metadata ''page'' ''Page'';
     issue \<leftarrow> fieldEntry metadata ''issue'' ''Issue'';
     publicationDate \<leftarrow> publicationDateEntry metadata;
     doi \<leftarrow> fieldEntry metadata ''DOI'' ''DOI'';
     type \<leftarrow> fieldEntry metadata ''type'' ''Type'';
     url \<leftarrow> fieldEntry metadata ''URL'' ''URL'';
     isbn \<leftarrow> firstEntry metadata ''ISBN'' ''ISBN'';
     dateAccessed \<leftarrow> updateDateAccessed metadata today;
     Some ([(''tags'', ''[CreatedBy/HappyRef]'')]
           @ authors @ journal @ volume @ page @ issue @ publicationDate @ doi @ type @ url
           @ isbn @ dateAccessed)
   }"

definition newFrontmatterString :: "jsval \<Rightarrow> currentDate \<Rightarrow> string option" where
  "newFrontmatterString metadata today = do {
     entries \<leftarrow> updateFrontmatter metadata today;
     Some (''---\<newline>'' @ frontmatterLines entries @ ''---'')
   }"

text \<open>The file content \<open>updateYAMLFrontmatter\<close> writes back.\<close>

definition updateYAMLFrontmatter :: "string \<Rightarrow> jsval \<Rightarrow> currentDate \<Rightarrow> string option" where
  "updateYAMLFrontmatter fileContent metadata today = do {
     new \<leftarrow> newFrontmatterString metadata today;
     Some (case frontmatterMatch fileContent of
             Some (inner, contentBody) \<Rightarrow>
               stringReplace fileContent (''---'' @ inner @ ''---'') new
           | None \<Rightarrow> new @ ''\<newline>'' @ fileContent)
   }"

section \<open>Changing the citation style: \<open>changeCitationStyle\<close>\<close>

text \<open>
  What the operation can throw. \<open>ErrorRefetching e\<close> is the error the \<open>catch\<close> block
  makes of a caught \<open>e\<close>: \<open>new Error("Error re-fetching citation data: " + e.message)\<close>.
\<close>

datatype error =
    TypeError
  | YAMLException
  | Error string
  | ErrorRefetching error

text \<open>
  Two collaborators are outside the repository and are parameters of the model:
  \<open>yaml.load\<close> of the library js-yaml (\<open>None\<close> when it throws), and the registry behind
  \<open>fetchCrossrefData\<close>, which answers a DOI with the parsed response or throws.
\<close>

record collaborators =
  yamlLoad :: "string \<Rightarrow> jsval option"
  fetchCrossrefData :: "jsval \<Rightarrow> error + jsval"

definition requiredMetadata :: "string list" where
  "requiredMetadata = [''author'', ''issued'', ''title'', ''container-title'']"

text \<open>
  The loop over \<open>requiredMetadata\<close>: complete when no field is falsy.
\<close>

definition metadataComplete :: "jsval \<Rightarrow> bool option" where
  "metadataComplete citationMetadata = do {
     values \<leftarrow> those (map (getProp citationMetadata) requiredMetadata);
     Some (list_all truthy values)
   }"

text \<open>
  \<open>citationMetadata['date-accessed'] = accessedDate\<close>. An object takes the entry; a
  primitive value cannot (strict mode throws). An array would take it as an extra
  property, which the value type cannot hold: it is dropped, and every later read of
  \<open>date-accessed\<close> then falls back to the date of the day, the value just assigned.
\<close>

fun setProp :: "jsval \<Rightarrow> string \<Rightarrow> jsval \<Rightarrow> jsval option" where
  "setProp (JObj fs) k v = Some (JObj ((k, v) # fs))"
| "setProp (JArr xs) k v = Some (JArr xs)"
| "setProp JUndefined k v = None"
| "setProp JNull k v = None"
| "setProp (JBool b) k v = None"
| "setProp (JNum n) k v = None"
| "setProp (JStr s) k v = None"

text \<open>
  The block \<open>if (!metadataComplete)\<close>: the record is fetched again by its DOI and the
  metadata block of the file is rewritten. The result is the record to cite and the
  content of the file. Everything thrown inside the \<open>try\<close> is caught and thrown again.
\<close>

definition refetch ::
  "collaborators \<Rightarrow> currentDate \<Rightarrow> string \<Rightarrow> jsval \<Rightarrow> error + (jsval \<times> string)" where
  "refetch c today fileContent citationMetadata =
     (case getProp citationMetadata ''DOI'' of
        None \<Rightarrow> Inl TypeError
      | Some doi \<Rightarrow>
          if truthy doi then
            (case fetchCrossrefData c doi of
               Inl e \<Rightarrow> Inl (ErrorRefetching e)
             | Inr newData \<Rightarrow>
                 (case (if truthy newData then getProp newData ''message'' else Some newData) of
                    None \<Rightarrow> Inl (ErrorRefetching TypeError)
                  | Some message \<Rightarrow>
                      if truthy message then
                        (case setProp message ''date-accessed'' (JStr (accessedDate today)) of
                           None \<Rightarrow> Inl (ErrorRefetching TypeError)
                         | Some fetched \<Rightarrow>
                             (case updateYAMLFrontmatter fileContent fetched today of
                                None \<Rightarrow> Inl (ErrorRefetching TypeError)
                              | Some written \<Rightarrow> Inr (fetched, written)))
                      else Inl (ErrorRefetching (Error
                             (''Failed to re-fetch data from Crossref for DOI: '' @ toStr doi)))))
          else Inl (Error ''Missing DOI in note metadata. Cannot re-fetch citation data.''))"

text \<open>
  \<open>/(## Citation\n)([\s\S]*?)(\n---)/\<close> on the body: the first heading, the shortest
  text after it, and the rule that ends it. When the body matches, the match is replaced
  by \<open>`$1${citationText}\n\n---`\<close>, expanded as \<open>replace\<close> does; otherwise a new
  section is appended.
\<close>

definition replaceCitationSection :: "string \<Rightarrow> string \<Rightarrow> string" where
  "replaceCitationSection contentBody citationText =
     (case splitAtFirst ''## Citation\<newline>'' contentBody of
        None \<Rightarrow> contentBody @ ''\<newline>## Citation\<newline>'' @ citationText @ ''\<newline>\<newline>---''
      | Some (head, rest) \<Rightarrow>
          (case splitAtFirst ''\<newline>---'' rest of
             None \<Rightarrow>
               contentBody @ ''\<newline>## Citation\<newline>'' @ citationText @ ''\<newline>\<newline>---''
           | Some (old, tail) \<Rightarrow>
               head
               @ getSubstitution (''## Citation\<newline>'' @ old @ ''\<newline>---'') head tail
                   [''## Citation\<newline>'', old, ''\<newline>---'']
                   (''$1'' @ citationText @ ''\<newline>\<newline>---'')
               @ tail))"

text \<open>
  The whole operation on the content of the file. The result is what was thrown, if
  anything, and the content of the file afterwards.
\<close>

definition changeCitationStyle ::
  "collaborators \<Rightarrow> currentDate \<Rightarrow> string \<Rightarrow> CitationStyle \<Rightarrow> error option \<times> string" where
  "changeCitationStyle c today fileContent newStyle =
     (case frontmatterMatch fileContent of
        None \<Rightarrow>
          (Some (Error ''No YAML frontmatter found in the note to update citation style.''),
           fileContent)
      | Some (inner, contentBody) \<Rightarrow>
          (case yamlLoad c inner of
             None \<Rightarrow> (Some YAMLException, fileContent)
           | Some loaded \<Rightarrow>
               (let frontmatter = (if truthy loaded then loaded else JObj []) in
                case metadataComplete frontmatter of
                  None \<Rightarrow> (Some TypeError, fileContent)
                | Some complete \<Rightarrow>
                    (case (if complete then Inr (frontmatter, fileContent)
                           else refetch c today fileContent frontmatter) of
                       Inl e \<Rightarrow> (Some e, fileContent)
                     | Inr (citationMetadata, written) \<Rightarrow>
                         (case formatCitation newStyle citationMetadata of
                            None \<Rightarrow> (Some TypeError, written)
                          | Some citationText \<Rightarrow>
                              (None,
                               ''---\<newline>'' @ inner @ ''---\<newline>''
                               @ replaceCitationSection contentBody citationText))))))"

section \<open>Well-typed authors and example records\<close>

text \<open>
  The interface \<open>Author\<close> of the source: an object whose \<open>given\<close> and \<open>family\<close>
  are strings or absent.
\<close>

fun isOptionalString :: "jsval \<Rightarrow> bool" where
  "isOptionalString JUndefined = True"
| "isOptionalString (JStr s) = True"
| "isOptionalString v = False"

fun isAuthor :: "jsval \<Rightarrow> bool" where
  "isAuthor (JObj fs) =
     (isOptionalString (case map_of fs ''given'' of None \<Rightarrow> JUndefined | Some v \<Rightarrow> v)
      \<and> isOptionalString (case map_of fs ''family'' of None \<Rightarrow> JUndefined | Some v \<Rightarrow> v))"
| "isAuthor v = False"

text \<open>
  An author who has a family name and a given name: an object whose \<open>family\<close> is the
  given non-empty string and whose \<open>given\<close> is a string that starts with the given
  initial.
\<close>

fun hasName :: "jsval \<Rightarrow> string \<Rightarrow> char \<Rightarrow> bool" where
  "hasName (JObj fs) family initial =
     (map_of fs ''family'' = Some (JStr family) \<and> family \<noteq> []
      \<and> (case map_of fs ''given'' of Some (JStr (g # gs)) \<Rightarrow> g = initial | _ \<Rightarrow> False))"
| "hasName v family initial = False"

definition author :: "string \<Rightarrow> string \<Rightarrow> jsval" where
  "author given family = JObj [(''given'', JStr given), (''family'', JStr family)]"

text \<open>A complete record whose \<open>date-parts\<close> array is empty.\<close>

definition emptyDateParts :: jsval where
  "emptyDateParts =
     JObj [(''title'', JArr [JStr ''Deep Learning'']),
           (''author'', JArr [author ''Yann'' ''LeCun'']),
           (''container-title'', JArr [JStr ''Nature'']),
           (''issued'', JObj [(''date-parts'', JArr [])]),
           (''DOI'', JStr ''10.1/x'')]"

text \<open>A complete record with a date that has no year, as the registry sends it.\<close>

definition nullYear :: "(string \<times> jsval) list" where
  "nullYear =
     [(''title'', JArr [JStr ''Deep Learning'']),
      (''author'', JArr [author ''Yann'' ''LeCun'']),
      (''container-title'', JArr [JStr ''Nature'']),
      (''issued'', JObj [(''date-parts'', JArr [JArr [JNull]])])]"

definition fourAuthors :: jsval where
  "fourAuthors =
     JArr [author ''John'' ''Smith'', author ''Mary'' ''Jones'', author ''Kim'' ''Lee'',
           author ''Pat'' ''Wong'']"

text \<open>The keys \<open>createNote\<close> can write into the metadata block.\<close>

definition rendererKeys :: "string list" where
  "rendererKeys = [''tags'', ''authors'', ''Journal'', ''Volume'', ''Page'', ''Issue'',
     ''Publication_Date'', ''DOI'', ''Type'', ''URL'', ''ISBN'', ''Date Accessed'']"

text \<open>
  A record as the registry has it for a book: a title, a DOI and an abstract, no authors.
  The notes are the ones \<open>createNote\<close> writes for it on 1 June 2025, with the Harvard
  style and with the style \<open>None\<close>.
\<close>

definition bookRecord :: jsval where
  "bookRecord = JObj [(''title'', JArr [JStr ''Deep Learning'']), (''DOI'', JStr ''10.1/x''),
                      (''abstract'', JStr ''Text'')]"

definition firstOfJune :: currentDate where
  "firstOfJune = \<lparr> getFullYear = 2025, getMonth = 5, getDate = 1 \<rparr>"

definition harvardNote :: string where
  "harvardNote =
     ''---\<newline>tags: [CreatedBy/HappyRef]\<newline>DOI: 10.1/x\<newline>Date Accessed: 2025-06-01\<newline>---\<newline>\<newline>''
     @ ''# Deep Learning\<newline>\<newline>''
     @ ''## Citation\<newline>Could not generate Harvard citation due to missing data.\<newline>\<newline>---\<newline>\<newline>''
     @ ''## Abstract\<newline>Text\<newline>''"

definition plainNote :: string where
  "plainNote =
     ''---\<newline>tags: [CreatedBy/HappyRef]\<newline>DOI: 10.1/x\<newline>Date Accessed: 2025-06-01\<newline>---\<newline>\<newline>''
     @ ''# Deep Learning\<newline>\<newline>''
     @ ''## Abstract\<newline>Text\<newline>''"

text \<open>
  The collaborators for these notes: the YAML parser gives the three entries of their
  metadata block, and the registry answers with the book record.
\<close>

definition registry :: collaborators where
  "registry =
     \<lparr> yamlLoad = (\<lambda>inner. Some (JObj [(''tags'', JArr [JStr ''CreatedBy/HappyRef'']),
                                        (''DOI'', JStr ''10.1/x''),
                                        (''Date Accessed'', JStr ''2025-06-01'')])),
       fetchCrossrefData = (\<lambda>doi. Inr (JObj [(''message'', bookRecord)])) \<rparr>"

text \<open>The book record with an access date stored in it.\<close>

definition datedRecord :: jsval where
  "datedRecord = JObj [(''title'', JArr [JStr ''Deep Learning'']), (''DOI'', JStr ''10.1/x''),
                       (''abstract'', JStr ''Text''), (''date-accessed'', JStr ''2020-01-01'')]"

text \<open>
  A record without a DOI, the note \<open>createNote\<close> writes for it, and collaborators
  whose parser gives the two entries of that note's metadata block.
\<close>

definition untrackedRecord :: jsval where
  "untrackedRecord = JObj [(''title'', JArr [JStr ''Deep Learning'']), (''abstract'', JStr ''Text'')]"

definition untrackedNote :: string where
  "untrackedNote =
     ''---\<newline>tags: [CreatedBy/HappyRef]\<newline>Date Accessed: 2025-06-01\<newline>---\<newline>\<newline>''
     @ ''# Deep Learning\<newline>\<newline>''
     @ ''## Abstract\<newline>Text\<newline>''"

definition offline :: collaborators where
  "offline =
     \<lparr> yamlLoad = (\<lambda>inner. Some (JObj [(''tags'', JArr [JStr ''CreatedBy/HappyRef'']),
                                        (''Date Accessed'', JStr ''2025-06-01'')])),
       fetchCrossrefData = (\<lambda>doi. Inl (Error ''HTTP error! status: 503'')) \<rparr>"

text \<open>The book record as a re-fetch of 1 June 2025 stores it, with that day's date.\<close>

definition fetchedRecord :: jsval where
  "fetchedRecord = JObj [(''title'', JArr [JStr ''Deep Learning'']), (''DOI'', JStr ''10.1/x''),
                         (''abstract'', JStr ''Text''), (''date-accessed'', JStr ''2025-06-01'')]"

text \<open>The note \<open>createNote\<close> writes for the dated record on 1 June 2025.\<close>

definition datedNote :: string where
  "datedNote =
     ''---\<newline>tags: [CreatedBy/HappyRef]\<newline>DOI: 10.1/x\<newline>Date Accessed: 2025-06-01\<newline>---\<newline>\<newline>''
     @ ''# Deep Learning\<newline>\<newline>''
     @ ''## Abstract\<newline>Text\<newline>''"

text \<open>
  The replacement patterns that \<open>replace\<close> expands when the pattern is a string, so
  that there are no capture groups: \<open>$$\<close>, \<open>$&\<close>, \<open>$`\<close> and \<open>$'\<close>.
\<close>

fun hasReplacementPattern :: "string \<Rightarrow> bool" where
  "hasReplacementPattern [] = False"
| "hasReplacementPattern [c] = False"
| "hasReplacementPattern (c # d # t) =
     (c = CHR ''$'' \<and> d \<in> set [CHR ''$'', CHR ''&'', CHR 0x60, CHR 0x27]
      \<or> hasReplacementPattern (d # t))"

text \<open>
  A record without a DOI whose journal name has a colon in it, and the note
  \<open>createNote\<close> writes for it. The values are written as they are, so the block has
  the line \<open>Journal: Nature: Methods\<close>, which is not YAML: the parser throws on it.
\<close>

definition colonRecord :: jsval where
  "colonRecord = JObj [(''title'', JArr [JStr ''Deep Learning'']),
                       (''container-title'', JArr [JStr ''Nature: Methods'']),
                       (''abstract'', JStr ''Text'')]"

definition colonNote :: string where
  "colonNote =
     ''---\<newline>tags: [CreatedBy/HappyRef]\<newline>Journal: Nature: Methods\<newline>Date Accessed: 2025-06-01\<newline>---\<newline>\<newline>''
     @ ''# Deep Learning\<newline>\<newline>''
     @ ''## Abstract\<newline>Text\<newline>''"

definition strictParser :: collaborators where
  "strictParser =
     \<lparr> yamlLoad = (\<lambda>inner.
         if inner = ''\<newline>tags: [CreatedBy/HappyRef]\<newline>Journal: Nature: Methods\<newline>Date Accessed: 2025-06-01\<newline>''
         then None else Some (JObj [])),
       fetchCrossrefData = (\<lambda>doi. Inl (Error ''HTTP error! status: 503'')) \<rparr>"

section \<open>Properties of the path resolver\<close>

lemma suffixLoop_reaches:
  "\<lbrakk> \<forall>k. i \<le> k \<and> k < n \<longrightarrow> isFile h (suffixedFilePath folderPath base k);
     \<not> isFile h (suffixedFilePath folderPath base n); i \<le> n \<rbrakk>
   \<Longrightarrow> suffixLoop h folderPath base (suffixedFilePath folderPath base i) (i + 1)
       = Some (suffixedFilePath folderPath base n)"
proof (induction "n - i" arbitrary: i)
  case 0
  then have "i = n" by simp
  with 0 show ?case
    by (subst suffixLoop.simps) (simp add: isFile_def)
next
  case (Suc d)
  then have lt: "i < n" by simp
  with Suc.prems have here: "isFile h (suffixedFilePath folderPath base i)" by simp
  have "suffixLoop h folderPath base (suffixedFilePath folderPath base (i + 1)) (i + 1 + 1)
          = Some (suffixedFilePath folderPath base n)"
    using Suc.hyps Suc.prems lt by (intro Suc.hyps(1)) auto
  with here show ?case
    by (subst suffixLoop.simps) (simp add: isFile_def)
qed

lemma trimTrailingSlashes_idem:
  "trimTrailingSlashes (trimTrailingSlashes s) = trimTrailingSlashes s"
  by (simp add: trimTrailingSlashes_def dropWhile_idem)

text \<open>
  Where the folder is available, the paths the code builds are the paths of the
  specification.
\<close>

lemma paths_as_specified:
  assumes "folderAvailable h defaultFolder folder"
  shows "firstFilePath h defaultFolder base = claimedPath folder base 0"
    and "0 < n \<Longrightarrow> suffixedFilePath (noteFolder h defaultFolder) base n = claimedPath folder base n"
proof -
  from assms consider (root) "defaultFolder = []" "folder = []"
    | (folder) "folder = trimTrailingSlashes defaultFolder" "folder \<noteq> []"
        "getAbstractFileByPath h folder \<noteq> None \<or> createFolderSucceeds h folder"
    by (auto simp: folderAvailable_def)
  then have "firstFilePath h defaultFolder base = claimedPath folder base 0
      \<and> (0 < n \<longrightarrow> suffixedFilePath (noteFolder h defaultFolder) base n = claimedPath folder base n)"
  proof cases
    case root
    then show ?thesis
      by (simp add: firstFilePath_def suffixedFilePath_def noteFolder_def claimedPath_def)
  next
    case folder
    then have d: "defaultFolder \<noteq> []" by (auto simp: trimTrailingSlashes_def)
    with folder have nf: "noteFolder h defaultFolder = folder"
      by (auto simp: noteFolder_def Let_def)
    have t: "trimTrailingSlashes folder = folder"
      using folder(1) by (simp add: trimTrailingSlashes_idem)
    from d nf t folder(2) show ?thesis
      by (simp add: firstFilePath_def suffixedFilePath_def claimedPath_def)
  qed
  then show "firstFilePath h defaultFolder base = claimedPath folder base 0"
    and "0 < n \<Longrightarrow> suffixedFilePath (noteFolder h defaultFolder) base n = claimedPath folder base n"
    by simp_all
qed

text \<open>
  Where the folder is available, the resolver returns the first of the specified paths
  that is not an existing file.
\<close>

lemma resolveFilePath_first_free:
  assumes avail: "folderAvailable h defaultFolder folder"
    and taken: "\<forall>k<n. isFile h (claimedPath folder base k)"
    and free: "\<not> isFile h (claimedPath folder base n)"
  shows "resolveFilePath h defaultFolder base = Some (claimedPath folder base n)"
proof (cases n)
  case 0
  with free show ?thesis
    unfolding resolveFilePath_def paths_as_specified(1) [OF avail]
    by (subst suffixLoop.simps) (simp add: isFile_def)
next
  case (Suc m)
  let ?f = "noteFolder h defaultFolder"
  have p: "\<And>k. 0 < k \<Longrightarrow> suffixedFilePath ?f base k = claimedPath folder base k"
    by (rule paths_as_specified(2) [OF avail])
  have first: "isFile h (firstFilePath h defaultFolder base)"
    using taken Suc by (simp add: paths_as_specified(1) [OF avail])
  have mid: "\<forall>k. 1 \<le> k \<and> k < n \<longrightarrow> isFile h (suffixedFilePath ?f base k)"
    using taken by (simp add: p)
  have free': "\<not> isFile h (suffixedFilePath ?f base n)"
    using free Suc by (simp add: p)
  have "suffixLoop h ?f base (suffixedFilePath ?f base 1) (1 + 1)
          = Some (suffixedFilePath ?f base n)"
    using mid free' Suc by (intro suffixLoop_reaches) auto
  with first show ?thesis
    unfolding resolveFilePath_def
    by (subst suffixLoop.simps) (simp add: isFile_def p Suc)
qed

text \<open>The example of the specification: \<open>X.md\<close>, \<open>X (1).md\<close> and \<open>X (2).md\<close> exist.\<close>

lemma resolveFilePath_third_suffix:
  "resolveFilePath (vaultOf [''X.md'', ''X (1).md'', ''X (2).md'']) [] ''X'' = Some ''X (3).md''"
proof -
  let ?h = "vaultOf [''X.md'', ''X (1).md'', ''X (2).md'']"
  have avail: "folderAvailable ?h [] []" by (simp add: folderAvailable_def)
  have paths: "claimedPath [] ''X'' 0 = ''X.md''" "claimedPath [] ''X'' 1 = ''X (1).md''"
    "claimedPath [] ''X'' 2 = ''X (2).md''" "claimedPath [] ''X'' 3 = ''X (3).md''"
    by (simp_all add: claimedPath_def showNat.simps)
  have files: "isFile ?h ''X.md''" "isFile ?h ''X (1).md''" "isFile ?h ''X (2).md''"
    "\<not> isFile ?h ''X (3).md''"
    by (simp_all add: isFile_def vaultOf_def)
  have a: "\<forall>k<3. isFile ?h (claimedPath [] ''X'' k)"
  proof (intro allI impI)
    fix k :: nat assume "k < 3"
    then consider "k = 0" | "k = 1" | "k = 2" by arith
    then show "isFile ?h (claimedPath [] ''X'' k)"
      by cases (simp_all only: paths files)
  qed
  have b: "\<not> isFile ?h (claimedPath [] ''X'' 3)"
    by (simp only: paths files not_False_eq_True)
  from resolveFilePath_first_free [OF avail a b] show ?thesis by (simp only: paths)
qed

text \<open>
  Whatever the resolver returns is not an existing file, and it is the first path or a
  suffixed one; when all of these exist the loop does not end.
\<close>

lemma suffixLoop_Some:
  assumes "suffixLoop h folderPath base filePath n = Some y"
  shows "\<not> isFile h y \<and> (y = filePath \<or> (\<exists>k\<ge>n. y = suffixedFilePath folderPath base k))"
proof (rule suffixLoop.raw_induct
    [where P = "\<lambda>h folderPath base filePath n y.
       \<not> isFile h y \<and> (y = filePath \<or> (\<exists>k\<ge>n. y = suffixedFilePath folderPath base k))",
     OF _ assms])
  fix f h folderPath base filePath n y
  assume IH: "\<And>h folderPath base filePath n y. f h folderPath base filePath n = Some y \<Longrightarrow>
      \<not> isFile h y \<and> (y = filePath \<or> (\<exists>k\<ge>n. y = suffixedFilePath folderPath base k))"
    and step: "(if getAbstractFileByPath h filePath = Some TFile
      then f h folderPath base (suffixedFilePath folderPath base n) (n + 1)
      else Some filePath) = Some y"
  show "\<not> isFile h y \<and> (y = filePath \<or> (\<exists>k\<ge>n. y = suffixedFilePath folderPath base k))"
  proof (cases "getAbstractFileByPath h filePath = Some TFile")
    case True
    with step have "f h folderPath base (suffixedFilePath folderPath base n) (n + 1) = Some y"
      by simp
    from IH [OF this] have free: "\<not> isFile h y"
      and "y = suffixedFilePath folderPath base n
           \<or> (\<exists>k\<ge>n + 1. y = suffixedFilePath folderPath base k)"
      by auto
    then have "\<exists>k\<ge>n. y = suffixedFilePath folderPath base k"
      by (metis add_leD1 order_refl)
    with free show ?thesis by simp
  next
    case False
    with step show ?thesis by (simp add: isFile_def)
  qed
qed

lemma resolveFilePath_Some:
  assumes "resolveFilePath h defaultFolder base = Some y"
  shows "\<not> isFile h y
     \<and> (y = firstFilePath h defaultFolder base
        \<or> (\<exists>k\<ge>1. y = suffixedFilePath (noteFolder h defaultFolder) base k))"
  using suffixLoop_Some [OF assms [unfolded resolveFilePath_def]] by simp

lemma resolveFilePath_never_returns:
  assumes "folderAvailable h defaultFolder folder"
    and "\<And>n. isFile h (claimedPath folder base n)"
  shows "resolveFilePath h defaultFolder base = None"
proof (cases "resolveFilePath h defaultFolder base")
  case None
  then show ?thesis .
next
  case (Some y)
  from resolveFilePath_Some [OF Some] have n: "\<not> isFile h y"
    and c: "y = firstFilePath h defaultFolder base
        \<or> (\<exists>k\<ge>1. y = suffixedFilePath (noteFolder h defaultFolder) base k)"
    by auto
  from c have "\<exists>k. y = claimedPath folder base k"
  proof
    assume "y = firstFilePath h defaultFolder base"
    then show ?thesis using paths_as_specified(1) [OF assms(1)] by auto
  next
    assume "\<exists>k\<ge>1. y = suffixedFilePath (noteFolder h defaultFolder) base k"
    then obtain k where "1 \<le> k" "y = suffixedFilePath (noteFolder h defaultFolder) base k"
      by blast
    then show ?thesis using paths_as_specified(2) [OF assms(1), of k] by auto
  qed
  with n assms(2) show ?thesis by auto
qed

text \<open>
  C7. The claim is that the resolver tries \<open>folder/base.md\<close> and then
  \<open>folder/base (n).md\<close>, and returns the first of them that does not exist. When the
  folder of the settings does not exist and cannot be created, the code falls back to the
  root by \<open>folderPath = ""\<close>, but builds the first path as
  \<open>folderPath + '/' + filename + ".md"\<close>: with \<open>X.md\<close> in the vault it tries
  \<open>/X.md\<close> and returns it, where the first free path of the claim is \<open>X (1).md\<close>.
\<close>

theorem failed_folder_creation_returns_slash_path:
  "isFile readOnlyVault (claimedPath [] ''X'' 0)
   \<and> \<not> isFile readOnlyVault (claimedPath [] ''X'' 1)
   \<and> resolveFilePath readOnlyVault ''notes'' ''X'' = Some ''/X.md''"
proof -
  have "resolveFilePath readOnlyVault ''notes'' ''X'' = Some ''/X.md''"
    unfolding resolveFilePath_def
    by (subst suffixLoop.simps)
      (simp add: firstFilePath_def noteFolder_def trimTrailingSlashes_def readOnlyVault_def)
  then show ?thesis
    by (simp add: isFile_def readOnlyVault_def claimedPath_def showNat.simps)
qed

section \<open>Properties of the citation formatters\<close>

lemmas formatter_defs =
  formatHarvardCitation_def formatVancouverCitation_def formatAPACitation_def
  formatChicagoCitation_def formatAMACitation_def formatAPCitation_def
  formatCanadianCitation_def formatOxfordReferenceCitation_def

lemmas authors_defs =
  familyInitial_def givenFamily_def vancouverAuthors_def vancouverAuthor_def apaAuthors_def
  chicagoAuthors_def amaAuthors_def amaAuthor_def canadianAuthors_def oxfordAuthors_def

text \<open>
  C1. The claim is that no formatter ever throws. On a record that has all four required
  fields but an empty \<open>date-parts\<close> array, each of the eight formatters throws: the read
  \<open>message.issued['date-parts'][0][0]\<close> indexes \<open>undefined\<close> before the test
  \<open>if (!year)\<close> is reached.
\<close>

theorem formatters_throw_on_empty_date_parts:
  "list_all (\<lambda>style. formatCitation style emptyDateParts = None)
     [Harvard, Vancouver, APA, Chicago, AMA, AP, Canadian, Oxford]"
  by (simp add: emptyDateParts_def author_def formatter_defs authors_defs missingData_def
      issuedYear_def optIndex_def jsGreaterEq_def charAt0_def)

lemma missingData_absent:
  assumes "map_of entries ''author'' = None \<or> map_of entries ''issued'' = None
     \<or> map_of entries ''title'' = None \<or> map_of entries ''container-title'' = None"
  shows "missingData (JObj entries) = Some True"
  using assms by (auto simp: missingData_def)

text \<open>
  C2. When one of \<open>author\<close>, \<open>issued\<close>, \<open>title\<close>, \<open>container-title\<close> is absent from
  the record, the formatter of each of the eight styles returns, without raising, the
  diagnostic \<open>Could not generate <Style> citation due to missing data.\<close> and no partial
  citation. (For the Oxford style the name printed is \<open>Oxford Reference\<close>.)
\<close>

theorem missing_field_diagnostic:
  assumes "style \<noteq> NoneStyle"
    and "map_of entries ''author'' = None \<or> map_of entries ''issued'' = None
     \<or> map_of entries ''title'' = None \<or> map_of entries ''container-title'' = None"
  shows "formatCitation style (JObj entries)
    = Some (''Could not generate '' @ diagnosticName style @ '' citation due to missing data.'')"
  using assms(1) missingData_absent [OF assms(2)]
  by (cases style) (simp_all add: formatter_defs)

theorem missing_field_diagnostic_witness:
  "formatCitation Chicago (JObj [(''title'', JArr [JStr ''Deep Learning'']), (''DOI'', JStr ''10.1/x'')])
     = Some ''Could not generate Chicago citation due to missing data.''"
  using missing_field_diagnostic
    [of Chicago "[(''title'', JArr [JStr ''Deep Learning'']), (''DOI'', JStr ''10.1/x'')]"]
  by simp

subsection \<open>Author lists of well-typed authors\<close>

lemma those_map_Some:
  "(\<And>x. x \<in> set xs \<Longrightarrow> \<exists>y. f x = Some y) \<Longrightarrow> \<exists>ys. those (map f xs) = Some ys"
proof (induction xs)
  case Nil
  then show ?case by simp
next
  case (Cons x xs)
  from Cons.prems [of x] obtain y where y: "f x = Some y" by auto
  from Cons.IH Cons.prems obtain ys where ys: "those (map f xs) = Some ys" by auto
  from y ys show ?case by simp
qed

lemma arrayMap_Some:
  assumes "\<And>x i. x \<in> set xs \<Longrightarrow> \<exists>y. f x i xs = Some y"
  shows "\<exists>ys. arrayMap (JArr xs) f = Some ys"
proof -
  have "\<exists>ys. those (map (\<lambda>(index, x). f x index xs) (enumerate 0 xs)) = Some ys"
  proof (rule those_map_Some)
    fix p assume "p \<in> set (enumerate 0 xs)"
    then have "fst p < length xs \<and> xs ! fst p = snd p" by (simp add: in_set_enumerate_eq)
    then have "snd p \<in> set xs" using nth_mem [of "fst p" xs] by auto
    from assms [OF this, of "fst p"] show "\<exists>y. (case p of (index, x) \<Rightarrow> f x index xs) = Some y"
      by (cases p) simp
  qed
  then show ?thesis by simp
qed

lemma familyInitial_Some: "isAuthor a \<Longrightarrow> \<exists>s. familyInitial a = Some s"
  by (cases a) (simp_all add: familyInitial_def)

lemma givenFamily_Some: "isAuthor a \<Longrightarrow> \<exists>s. givenFamily a = Some s"
  by (cases a) (simp_all add: givenFamily_def)

lemma vancouverAuthor_Some: "isAuthor a \<Longrightarrow> \<exists>s. vancouverAuthor a i xs = Some s"
  by (cases a) (simp_all add: vancouverAuthor_def Let_def)

lemma amaAuthor_Some: "isAuthor a \<Longrightarrow> \<exists>s. amaAuthor a = Some s"
proof -
  assume a: "isAuthor a"
  then obtain fs where fs: "a = JObj fs" by (cases a) simp_all
  show ?thesis
  proof (cases "map_of fs ''given''")
    case None
    then show ?thesis by (simp add: amaAuthor_def fs)
  next
    case (Some g)
    with a fs have "isOptionalString g" by simp
    then show ?thesis using Some by (cases g) (simp_all add: amaAuthor_def fs)
  qed
qed

lemma harvardAuthors_Some:
  "\<forall>a\<in>set xs. isAuthor a
   \<Longrightarrow> \<exists>ys. arrayMap (JArr xs) (\<lambda>author index array. familyInitial author) = Some ys"
  by (rule arrayMap_Some) (simp add: familyInitial_Some)

lemma vancouverAuthors_Some:
  "\<forall>a\<in>set xs. isAuthor a \<Longrightarrow> \<exists>s. vancouverAuthors (JArr xs) = Some s"
proof -
  assume "\<forall>a\<in>set xs. isAuthor a"
  then have "\<exists>ys. arrayMap (JArr xs) vancouverAuthor = Some ys"
    by (intro arrayMap_Some) (simp add: vancouverAuthor_Some)
  then show ?thesis by (auto simp: vancouverAuthors_def)
qed

lemma apaAuthors_Some:
  assumes t: "\<forall>a\<in>set xs. isAuthor a"
  shows "\<exists>s. apaAuthors (JArr xs) = Some s"
proof -
  have fi: "\<And>i. i < length xs \<Longrightarrow> \<exists>s. familyInitial (xs ! i) = Some s"
    using t by (simp add: familyInitial_Some)
  have m1: "\<exists>ys. arrayMap (JArr xs) (\<lambda>author index array. do {
         authorString \<leftarrow> familyInitial author;
         Some (if index = length array - 1 then ''& '' @ authorString else authorString)
       }) = Some ys"
  proof (rule arrayMap_Some)
    fix x i assume "x \<in> set xs"
    with t obtain s where "familyInitial x = Some s" using familyInitial_Some by blast
    then show "\<exists>y. familyInitial x \<bind> (\<lambda>authorString.
        Some (if i = length xs - 1 then ''& '' @ authorString else authorString)) = Some y"
      by simp
  qed
  have m2: "\<exists>ys. arrayMap (JArr (take 19 xs)) (\<lambda>author index array. familyInitial author) = Some ys"
    using t by (intro harvardAuthors_Some) (auto dest: in_set_takeD)
  consider "length xs = 1" | "length xs = 2" | "2 < length xs \<and> length xs \<le> 20"
    | "20 < length xs" | "length xs = 0"
    by arith
  then show ?thesis
  proof cases
    case 1
    with fi [of 0] show ?thesis by (auto simp: apaAuthors_def)
  next
    case 2
    with fi [of 0] fi [of 1] show ?thesis by (auto simp: apaAuthors_def)
  next
    case 3
    with m1 show ?thesis by (auto simp: apaAuthors_def jsGreater_def jsLessEq_def)
  next
    case 4
    with m2 fi [of "length xs - 1"] show ?thesis
      by (auto simp: apaAuthors_def jsGreater_def jsLessEq_def)
  next
    case 5
    then show ?thesis by (simp add: apaAuthors_def jsGreater_def jsLessEq_def)
  qed
qed

lemma chicagoAuthors_Some:
  assumes t: "\<forall>a\<in>set xs. isAuthor a"
  shows "\<exists>s. chicagoAuthors (JArr xs) = Some s"
proof -
  have fi: "\<And>i. i < length xs \<Longrightarrow> \<exists>s. givenFamily (xs ! i) = Some s"
    using t by (simp add: givenFamily_Some)
  consider "length xs = 1" | "length xs = 2" | "length xs = 3" | "3 < length xs"
    | "length xs = 0"
    by arith
  then show ?thesis
  proof cases
    case 1
    with fi [of 0] show ?thesis by (auto simp: chicagoAuthors_def)
  next
    case 2
    with fi [of 0] fi [of 1] show ?thesis by (auto simp: chicagoAuthors_def)
  next
    case 3
    with fi [of 0] fi [of 1] fi [of 2] show ?thesis by (auto simp: chicagoAuthors_def)
  next
    case 4
    with fi [of 0] show ?thesis by (auto simp: chicagoAuthors_def jsGreater_def)
  next
    case 5
    then show ?thesis by (simp add: chicagoAuthors_def jsGreater_def)
  qed
qed

lemma amaAuthors_Some:
  assumes t: "\<forall>a\<in>set xs. isAuthor a"
  shows "\<exists>s. amaAuthors (JArr xs) = Some s"
proof -
  have "\<exists>ys. arrayMap (JArr xs) (\<lambda>author index array. amaAuthor author) = Some ys"
    using t by (intro arrayMap_Some) (simp add: amaAuthor_Some)
  then show ?thesis by (auto simp: amaAuthors_def)
qed

lemma canadianAuthors_Some:
  assumes t: "\<forall>a\<in>set xs. isAuthor a"
  shows "\<exists>s. canadianAuthors (JArr xs) = Some s"
proof -
  have m: "\<exists>ys. arrayMap (JArr xs) (\<lambda>author index array. givenFamily author) = Some ys"
    using t by (intro arrayMap_Some) (simp add: givenFamily_Some)
  show ?thesis
  proof (cases "length xs = 1")
    case True
    then have "\<exists>s. givenFamily (xs ! 0) = Some s" using t by (simp add: givenFamily_Some)
    with True show ?thesis by (auto simp: canadianAuthors_def)
  next
    case False
    with m show ?thesis by (auto simp: canadianAuthors_def)
  qed
qed

lemma oxfordAuthors_Some:
  assumes t: "\<forall>a\<in>set xs. isAuthor a"
  shows "\<exists>s. oxfordAuthors (JArr xs) = Some s"
proof -
  have m: "\<exists>ys. arrayMap (JArr xs) (\<lambda>author index array. do {
         authorString \<leftarrow> givenFamily author;
         Some (if index < length array - 1 then authorString @ '','' else authorString)
       }) = Some ys"
  proof (rule arrayMap_Some)
    fix x i assume "x \<in> set xs"
    with t obtain s where "givenFamily x = Some s" using givenFamily_Some by blast
    then show "\<exists>y. givenFamily x \<bind> (\<lambda>authorString.
        Some (if i < length xs - 1 then authorString @ '','' else authorString)) = Some y"
      by simp
  qed
  show ?thesis
  proof (cases "length xs = 1")
    case True
    then have "\<exists>s. givenFamily (xs ! 0) = Some s" using t by (simp add: givenFamily_Some)
    with True show ?thesis by (auto simp: oxfordAuthors_def)
  next
    case False
    with m show ?thesis by (auto simp: oxfordAuthors_def)
  qed
qed

text \<open>
  Where the first date of \<open>date-parts\<close> is there and has no year (it is empty, or its
  first component is empty, as in the registry's \<open>[[null]]\<close>), and the authors are
  well typed, each of the eight formatters returns the year-specific diagnostic.
\<close>

lemma year_diagnostic_for_yearless_date:
  assumes style: "style \<noteq> NoneStyle"
    and author: "map_of entries ''author'' = Some (JArr authors)" "\<forall>a\<in>set authors. isAuthor a"
    and issued: "map_of entries ''issued'' = Some (JObj issued)"
      "map_of issued ''date-parts'' = Some (JArr (JArr parts # others))"
    and year: "parts = [] \<or> \<not> truthy (parts ! 0)"
    and title: "map_of entries ''title'' = Some title" "truthy title"
    and container: "map_of entries ''container-title'' = Some containerTitle"
      "truthy containerTitle"
  shows "formatCitation style (JObj entries)
    = Some (''Could not generate '' @ diagnosticName style
            @ '' citation due to missing year data.'')"
proof -
  have m: "missingData (JObj entries) = Some False"
    using author(1) issued title container by (simp add: missingData_def)
  have a: "getProp (JObj entries) ''author'' = Some (JArr authors)"
    using author(1) by simp
  have y: "issuedYear (JObj entries) = Some (if parts = [] then JUndefined else parts ! 0)"
    using issued by (simp add: issuedYear_def)
  have n: "\<not> truthy (if parts = [] then JUndefined else parts ! 0)"
    using year by auto
  show ?thesis
  proof (cases style)
    case Harvard
    from harvardAuthors_Some [OF author(2)] show ?thesis
      using m a y n by (auto simp: Harvard formatHarvardCitation_def)
  next
    case Vancouver
    from vancouverAuthors_Some [OF author(2)] show ?thesis
      using m a y n by (auto simp: Vancouver formatVancouverCitation_def)
  next
    case NoneStyle
    with style show ?thesis by simp
  next
    case APA
    from apaAuthors_Some [OF author(2)] show ?thesis
      using m a y n by (auto simp: APA formatAPACitation_def)
  next
    case Chicago
    from chicagoAuthors_Some [OF author(2)] show ?thesis
      using m a y n by (auto simp: Chicago formatChicagoCitation_def)
  next
    case AMA
    from amaAuthors_Some [OF author(2)] show ?thesis
      using m a y n by (auto simp: AMA formatAMACitation_def)
  next
    case AP
    from harvardAuthors_Some [OF author(2)] show ?thesis
      using m a y n by (auto simp: AP formatAPCitation_def)
  next
    case Canadian
    from canadianAuthors_Some [OF author(2)] show ?thesis
      using m a y n by (auto simp: Canadian formatCanadianCitation_def)
  next
    case Oxford
    from oxfordAuthors_Some [OF author(2)] show ?thesis
      using m a y n by (auto simp: Oxford formatOxfordReferenceCitation_def)
  qed
qed

lemma year_diagnostic_for_null_year:
  "formatCitation APA (JObj nullYear)
     = Some ''Could not generate APA citation due to missing year data.''"
  using year_diagnostic_for_yearless_date
    [of APA nullYear "[author ''Yann'' ''LeCun'']" "[(''date-parts'', JArr [JArr [JNull]])]"
      "[JNull]" "[]" "JArr [JStr ''Deep Learning'']" "JArr [JStr ''Nature'']"]
  by (simp add: nullYear_def author_def)

text \<open>The record with the empty \<open>date-parts\<close> array passes the guard for the four fields.\<close>

lemma emptyDateParts_passes_guard: "missingData emptyDateParts = Some False"
  by (simp add: emptyDateParts_def author_def missingData_def)

text \<open>
  C8. The claim is that a record with all four fields and no first year in
  \<open>date-parts\<close> gets the year-specific diagnostic from every formatter. The record
  with the empty \<open>date-parts\<close> array is such a record: the four fields are there, there
  is no first year, and the read of the year throws, so that none of the eight formatters
  returns the diagnostic.
\<close>

theorem year_diagnostic_missed_on_empty_date_parts:
  "list_all (\<lambda>k. \<exists>v. getProp emptyDateParts k = Some v \<and> truthy v)
     [''author'', ''issued'', ''title'', ''container-title'']
   \<and> issuedYear emptyDateParts = None
   \<and> list_all
       (\<lambda>style. formatCitation style emptyDateParts
          \<noteq> Some (''Could not generate '' @ diagnosticName style
                   @ '' citation due to missing year data.''))
       [Harvard, Vancouver, APA, Chicago, AMA, AP, Canadian, Oxford]"
  by (simp add: emptyDateParts_def author_def formatter_defs authors_defs missingData_def
      issuedYear_def optIndex_def jsGreaterEq_def charAt0_def)

subsection \<open>The Vancouver author list\<close>

lemma vancouver_rest:
  "\<forall>a\<in>set xs. isAuthor a \<Longrightarrow> 3 < length arr \<Longrightarrow> 3 \<le> n \<Longrightarrow>
   those (map (\<lambda>(index, x). vancouverAuthor x index arr) (enumerate n xs))
     = Some (replicate (length xs) [])"
proof (induction xs arbitrary: n)
  case Nil
  then show ?case by simp
next
  case (Cons x xs)
  then obtain fs where "x = JObj fs" by (cases x) simp_all
  then have "vancouverAuthor x n arr = Some []"
    using Cons.prems by (simp add: vancouverAuthor_def Let_def)
  moreover have "those (map (\<lambda>(index, x). vancouverAuthor x index arr) (enumerate (Suc n) xs))
      = Some (replicate (length xs) [])"
    using Cons.prems by (intro Cons.IH) auto
  ultimately show ?case by simp
qed

lemma vancouverAuthor_head:
  "hasName a family initial \<Longrightarrow> 3 < length arr \<Longrightarrow> i < 2
   \<Longrightarrow> vancouverAuthor a i arr = Some (family @ '' '' @ [initial] @ ''.'')"
proof (cases a)
  case (JObj fs)
  assume "hasName a family initial" "3 < length arr" "i < 2"
  with JObj show ?thesis
    by (auto simp: vancouverAuthor_def Let_def optIndex_def
        split: option.splits jsval.splits list.splits)
qed simp_all

lemma vancouverAuthor_third:
  "hasName a family initial \<Longrightarrow> 3 < length arr
   \<Longrightarrow> vancouverAuthor a 2 arr = Some (family @ '' '' @ [initial] @ '', et al'')"
proof (cases a)
  case (JObj fs)
  assume "hasName a family initial" "3 < length arr"
  with JObj show ?thesis
    by (auto simp: vancouverAuthor_def Let_def optIndex_def
        split: option.splits jsval.splits list.splits)
qed simp_all

text \<open>
  C9, as the claim states it: with more than 3 authors the list would keep 2 authors and
  continue with \<open>et al\<close>. For four authors the list names three of them: the third author
  is kept, followed by \<open>, et al\<close>.
\<close>

theorem vancouver_names_third_author:
  "vancouverAuthors fourAuthors = Some ''Smith J. Jones M. Lee K, et al''"
  by (simp add: fourAuthors_def author_def vancouverAuthors_def vancouverAuthor_def
      optIndex_def)

text \<open>
  C9, amended. For every list of more than 3 well-typed authors of which the first three
  have a family name and a given name, the Vancouver author list consists of these three:
  the first and the second as \<open>Family G.\<close>, the third as \<open>Family G, et al\<close>, where
  \<open>G\<close> is the initial of the given name, separated by spaces; no author beyond the
  third appears in it.
\<close>

theorem vancouver_author_list:
  assumes "3 < length authors" and "\<forall>a\<in>set authors. isAuthor a"
    and "hasName (authors ! 0) family0 initial0"
    and "hasName (authors ! 1) family1 initial1"
    and "hasName (authors ! 2) family2 initial2"
  shows "vancouverAuthors (JArr authors)
     = Some (family0 @ '' '' @ [initial0] @ ''. '' @ family1 @ '' '' @ [initial1] @ ''. ''
             @ family2 @ '' '' @ [initial2] @ '', et al'')"
proof -
  from assms(1) obtain a0 a1 a2 a3 rest where as: "authors = a0 # a1 # a2 # a3 # rest"
    by (cases authors; cases "tl authors"; cases "tl (tl authors)";
        cases "tl (tl (tl authors))") auto
  let ?arr = "a0 # a1 # a2 # a3 # rest"
  have len: "3 < length ?arr" by simp
  have t: "hasName a0 family0 initial0" "hasName a1 family1 initial1"
    "hasName a2 family2 initial2" "\<forall>a\<in>set (a3 # rest). isAuthor a"
    using assms(2-5) by (simp_all add: as)
  have r: "those (map (\<lambda>(index, x). vancouverAuthor x index ?arr) (enumerate 3 (a3 # rest)))
      = Some (replicate (length (a3 # rest)) [])"
    using t(4) len by (intro vancouver_rest) auto
  have e: "enumerate 0 ?arr = (0, a0) # (1, a1) # (2, a2) # enumerate 3 (a3 # rest)"
    by (simp add: numeral_3_eq_3 numeral_2_eq_2)
  have "arrayMap (JArr ?arr) vancouverAuthor
      = Some ((family0 @ '' '' @ [initial0] @ ''.'') # (family1 @ '' '' @ [initial1] @ ''.'')
              # (family2 @ '' '' @ [initial2] @ '', et al'')
              # replicate (length (a3 # rest)) [])"
    unfolding arrayMap.simps e using r
    by (simp add: vancouverAuthor_head [OF t(1) len] vancouverAuthor_head [OF t(2) len]
        vancouverAuthor_third [OF t(3) len] del: enumerate_simps replicate.simps)
  moreover have "filter (\<lambda>author. author \<noteq> '', et al'' \<and> author \<noteq> []) (replicate n []) = []"
    for n
    by (induction n) auto
  ultimately show ?thesis
    by (simp add: vancouverAuthors_def as del: replicate.simps)
qed

theorem vancouver_author_list_witness:
  "vancouverAuthors
     (JArr [author ''John'' ''Smith'', author ''Mary'' ''Jones'', author ''Kim'' ''Lee'',
            author ''Pat'' ''Wong'', author ''Ann'' ''Park''])
     = Some ''Smith J. Jones M. Lee K, et al''"
  using vancouver_author_list
    [of "[author ''John'' ''Smith'', author ''Mary'' ''Jones'', author ''Kim'' ''Lee'',
          author ''Pat'' ''Wong'', author ''Ann'' ''Park'']"
      "''Smith''" "CHR ''J''" "''Jones''" "CHR ''M''" "''Lee''" "CHR ''K''"]
  by (simp add: author_def)

section \<open>Properties of the note and of its rewriting\<close>

lemma replaceAll_eval:
  "replaceAll (p # ps) rep [] = []"
  "replaceAll (p # ps) rep (c # cs) =
     (if prefix (p # ps) (c # cs) then rep @ replaceAll (p # ps) rep (drop (length ps) cs)
      else c # replaceAll (p # ps) rep cs)"
  by (simp_all add: replaceAll.simps)

lemmas note_defs = createNoteContent_def createNoteFrontmatter_def createNoteAuthors_def
  firstEntry_def fieldEntry_def publicationDateEntry_def createNoteISBN_def frontmatterLines_def
  accessedDate_def padStart2_def titleOrUntitled_def abstractSection_def sanitizeAbstract_def
  optIndex_def

lemmas change_defs = changeCitationStyle_def frontmatterMatch_def metadataComplete_def
  requiredMetadata_def refetch_def updateYAMLFrontmatter_def newFrontmatterString_def
  updateFrontmatter_def updateAuthors_def updateDateAccessed_def stringReplace_def
  replaceCitationSection_def firstEntry_def fieldEntry_def publicationDateEntry_def
  frontmatterLines_def isDigit_def digitValue_def

lemma harvardNote_rendered: "createNoteContent Harvard firstOfJune bookRecord = Some harvardNote"
  by (simp add: note_defs bookRecord_def firstOfJune_def harvardNote_def showNat.simps
      replaceAll_eval formatHarvardCitation_def missingData_def)

lemma plainNote_rendered: "createNoteContent NoneStyle firstOfJune bookRecord = Some plainNote"
  by (simp add: note_defs bookRecord_def firstOfJune_def plainNote_def showNat.simps
      replaceAll_eval)

lemma untrackedNote_rendered:
  "createNoteContent NoneStyle firstOfJune untrackedRecord = Some untrackedNote"
  by (simp add: note_defs untrackedRecord_def firstOfJune_def untrackedNote_def showNat.simps
      replaceAll_eval)

text \<open>In \<open>createNote\<close> an empty citation leaves no section: the abstract follows the title.\<close>

lemma createNote_omits_empty_citation:
  assumes "formatCitation style message = Some []"
    and "createNoteContent style today message = Some content"
  shows "\<exists>entries title abstract.
           content = ''---\<newline>'' @ frontmatterLines entries @ ''---\<newline>\<newline>''
                     @ ''# '' @ title @ ''\<newline>\<newline>'' @ ''## Abstract\<newline>'' @ abstract"
  using assms by (auto simp: createNoteContent_def split: bind_splits)

text \<open>
  C3. The claim is that an empty citation never leaves a \<open>## Citation\<close> section in the
  document, in \<open>createNote\<close> and in \<open>changeCitationStyle\<close> alike. \<open>createNote\<close>
  tests \<open>if (citationText)\<close>; \<open>changeCitationStyle\<close> has no such test. On the note
  that \<open>createNote\<close> wrote with the style \<open>None\<close>, changing the style to \<open>None\<close>
  appends a \<open>## Citation\<close> section with no text in it.
\<close>

theorem change_to_none_emits_empty_section:
  "changeCitationStyle registry firstOfJune plainNote NoneStyle =
     (None,
      ''---\<newline>\<newline>tags: [CreatedBy/HappyRef]\<newline>DOI: 10.1/x\<newline>Date Accessed: 2025-06-01\<newline>---\<newline>\<newline>\<newline>''
      @ ''# Deep Learning\<newline>\<newline>''
      @ ''## Abstract\<newline>Text\<newline>''
      @ ''\<newline>## Citation\<newline>\<newline>\<newline>---'')"
  by (simp add: change_defs registry_def bookRecord_def plainNote_def)

text \<open>
  C4. The claim is that the abstract
  \<open><jats:title>Abstract</jats:title><jats:p>Text</jats:p>\<close> is rendered as \<open>Text\<close>.
  The first \<open>replaceAll\<close> has no second argument, so the title marker is replaced by
  the text \<open>undefined\<close>, and the section reads \<open>undefinedText\<close>.
\<close>

theorem abstract_title_marker_becomes_undefined:
  "abstractSection
     (JObj [(''abstract'', JStr ''<jats:title>Abstract</jats:title><jats:p>Text</jats:p>'')])
     = Some ''undefinedText\<newline>''"
  by (simp add: abstractSection_def sanitizeAbstract_def replaceAll_eval)

subsection \<open>The entries of the metadata block, written and rewritten\<close>

lemma those_length: "those xs = Some ys \<Longrightarrow> length ys = length xs"
  by (induction xs arbitrary: ys) (auto split: option.splits)

lemma arrayMap_length: "arrayMap (JArr xs) f = Some ys \<Longrightarrow> length ys = length xs"
  by (auto dest: those_length)

lemma arrayMap_Some_array: "arrayMap a f = Some ys \<Longrightarrow> \<exists>xs. a = JArr xs"
  by (cases a) simp_all

lemma updateAuthors_same:
  assumes "createNoteAuthors message = Some authors"
  shows "updateAuthors message
           = Some (if authors \<noteq> [] then [(''authors'', jsonStringify authors)] else [])"
proof -
  from assms obtain a where a: "getProp message ''author'' = Some a"
    by (auto simp: createNoteAuthors_def split: bind_splits)
  show ?thesis
  proof (cases "truthy a")
    case False
    with assms a show ?thesis by (simp add: createNoteAuthors_def updateAuthors_def)
  next
    case True
    with assms a have m: "arrayMap a (\<lambda>author index array. givenFamily author) = Some authors"
      by (simp add: createNoteAuthors_def)
    then obtain xs where xs: "a = JArr xs" by (auto dest: arrayMap_Some_array)
    from m xs have "length authors = length xs" by (simp add: arrayMap_length del: arrayMap.simps)
    then have "(authors \<noteq> []) = (0 < length xs)" by auto
    with a True m xs show ?thesis
      by (simp add: updateAuthors_def jsGreater_def del: arrayMap.simps)
  qed
qed

lemma isbn_same:
  assumes "getProp message ''ISBN'' = Some isbn" "\<not> truthy isbn \<or> truthy (optIndex isbn 0)"
  shows "firstEntry message ''ISBN'' ''ISBN'' = createNoteISBN message"
  using assms
  by (cases "getIndex isbn 0") (auto simp: firstEntry_def createNoteISBN_def optIndex_def)

lemma round_trip_entries:
  assumes written: "createNoteFrontmatter message today = Some entries"
    and stored: "getProp message ''date-accessed'' = Some stored"
      "\<not> truthy stored \<or> toStr stored = accessedDate today"
    and isbn: "getProp message ''ISBN'' = Some isbn" "\<not> truthy isbn \<or> truthy (optIndex isbn 0)"
  shows "updateFrontmatter message today = Some entries"
proof -
  from written obtain authors where au: "createNoteAuthors message = Some authors"
    by (auto simp: createNoteFrontmatter_def split: bind_splits)
  have d: "updateDateAccessed message today = Some [(''Date Accessed'', accessedDate today)]"
    using stored by (auto simp: updateDateAccessed_def)
  have "updateFrontmatter message today = createNoteFrontmatter message today"
    unfolding updateFrontmatter_def createNoteFrontmatter_def
    by (simp add: updateAuthors_same [OF au] au isbn_same [OF isbn] d)
  with written show ?thesis by simp
qed

subsection \<open>The file, rewritten with the same record\<close>

lemma splitAtFirst_Some:
  "splitAtFirst pat s = Some (h, t) \<Longrightarrow> s = h @ pat @ t"
proof (induction s arbitrary: h)
  case Nil
  then show ?case by (simp split: if_splits)
next
  case (Cons c cs)
  show ?case
  proof (cases "prefix pat (c # cs)")
    case True
    with Cons.prems have "h = []" "t = drop (length pat) (c # cs)" by simp_all
    moreover from True have "c # cs = pat @ drop (length pat) (c # cs)"
      by (metis append_eq_conv_conj prefix_def)
    ultimately show ?thesis by simp
  next
    case False
    with Cons.prems obtain h' where "splitAtFirst pat cs = Some (h', t)" "h = c # h'"
      by (auto split: option.splits prod.splits)
    with Cons.IH show ?thesis by simp
  qed
qed

lemma splitAtFirst_dashes:
  assumes "splitAtFirst ''---'' h = None" and "h \<noteq> [] \<Longrightarrow> last h \<noteq> CHR ''-''"
  shows "splitAtFirst ''---'' (h @ ''---'' @ t) = Some (h, t)"
  using assms
proof (induction h)
  case Nil
  then show ?case by simp
next
  case (Cons c cs)
  from Cons.prems(1) have np: "\<not> prefix ''---'' (c # cs)"
    and none: "splitAtFirst ''---'' cs = None"
    by (auto split: if_splits)
  from Cons.prems(2) have l: "last (c # cs) \<noteq> CHR ''-''" by simp
  have "\<not> prefix ''---'' (c # cs @ ''---'' @ t)"
  proof (cases cs)
    case Nil
    with l show ?thesis by simp
  next
    case c1: (Cons d ds)
    show ?thesis
    proof (cases ds)
      case Nil
      with l c1 show ?thesis by auto
    next
      case (Cons e es)
      with np c1 show ?thesis by auto
    qed
  qed
  moreover have "splitAtFirst ''---'' (cs @ ''---'' @ t) = Some (cs, t)"
    using none l by (intro Cons.IH) auto
  ultimately show ?case by simp
qed

lemma frontmatterLines_end:
  "frontmatterLines entries = [] \<or> last (frontmatterLines entries) = CHR ''\<newline>''"
  by (induction entries rule: rev_induct) (auto simp: frontmatterLines_def)

lemma getSubstitution_skip:
  "d \<noteq> CHR ''$''
   \<Longrightarrow> getSubstitution matched h t captures (d # r) = d # getSubstitution matched h t captures r"
  by (cases r) simp_all

lemma getSubstitution_no_pattern:
  "\<not> hasReplacementPattern template \<Longrightarrow> getSubstitution matched h t [] template = template"
proof (induction template rule: hasReplacementPattern.induct)
  case 1
  then show ?case by simp
next
  case (2 c)
  then show ?case by simp
next
  case (3 c d r)
  from "3.prems" have rest: "\<not> hasReplacementPattern (d # r)" by simp
  with "3.IH" have IH: "getSubstitution matched h t [] (d # r) = d # r" by simp
  show ?case
  proof (cases "c = CHR ''$''")
    case False
    with IH show ?thesis by simp
  next
    case True
    with "3.prems" have d: "d \<noteq> CHR ''$''" "d \<noteq> CHR ''&''" "d \<noteq> CHR 0x60" "d \<noteq> CHR 0x27"
      by auto
    from IH getSubstitution_skip [OF d(1)] have r: "getSubstitution matched h t [] r = r"
      by simp
    from True d r show ?thesis by (auto split: list.splits)
  qed
qed

lemma splitAtFirst_prefix:
  "pat \<noteq> [] \<Longrightarrow> splitAtFirst pat (pat @ t) = Some ([], t)"
proof -
  assume "pat \<noteq> []"
  then obtain a list where c: "pat @ t = a # list" by (cases pat) auto
  have p: "prefix pat (a # list)" using c by (metis prefixI)
  have d: "drop (length pat) (a # list) = t" using c by (metis append_eq_conv_conj)
  show ?thesis unfolding c using p d by simp
qed

lemma fetchedNote_rendered:
  "createNoteContent Harvard firstOfJune fetchedRecord = Some harvardNote"
  by (simp add: note_defs fetchedRecord_def firstOfJune_def harvardNote_def showNat.simps
      replaceAll_eval formatHarvardCitation_def missingData_def)

text \<open>
  C5, as the claim states it, speaks of every record, and a record can carry a stored
  access date. For such a record \<open>createNote\<close> writes the date of the day while the
  rewriter prefers the stored date: rewriting the note on the same day with the same
  record changes the line \<open>Date Accessed\<close> of the metadata block.
\<close>

theorem stored_access_date_breaks_round_trip:
  "createNoteContent NoneStyle firstOfJune datedRecord = Some datedNote
   \<and> updateYAMLFrontmatter datedNote datedRecord firstOfJune =
     Some (''---\<newline>tags: [CreatedBy/HappyRef]\<newline>DOI: 10.1/x\<newline>Date Accessed: 2020-01-01\<newline>---\<newline>\<newline>''
           @ ''# Deep Learning\<newline>\<newline>''
           @ ''## Abstract\<newline>Text\<newline>'')"
proof -
  have "createNoteContent NoneStyle firstOfJune datedRecord = Some datedNote"
    by (simp add: note_defs datedRecord_def firstOfJune_def datedNote_def showNat.simps
        replaceAll_eval)
  moreover have "updateYAMLFrontmatter datedNote datedRecord firstOfJune =
     Some (''---\<newline>tags: [CreatedBy/HappyRef]\<newline>DOI: 10.1/x\<newline>Date Accessed: 2020-01-01\<newline>---\<newline>\<newline>''
           @ ''# Deep Learning\<newline>\<newline>''
           @ ''## Abstract\<newline>Text\<newline>'')"
    by (simp add: change_defs datedRecord_def datedNote_def)
  ultimately show ?thesis by simp
qed

text \<open>
  C5, amended. Take a record whose stored access date is absent or is the date of the
  day, whose \<open>ISBN\<close> is absent or has a non-empty first element, and for which the
  lines \<open>createNote\<close> writes into the metadata block contain no three dashes in a row,
  and the block none of the patterns \<open>$$\<close>, \<open>$&\<close>, \<open>$`\<close>, \<open>$'\<close>. When
  \<open>createNote\<close> renders a note from the record, \<open>updateYAMLFrontmatter\<close> with the
  same record on the same day generates the same entries (the same keys in the same order
  with the same values) and writes the file back byte for byte as it was, the metadata
  block included.
\<close>

theorem metadata_round_trip:
  assumes rendered: "createNoteContent style today message = Some content"
    and written: "createNoteFrontmatter message today = Some entries"
    and stored: "getProp message ''date-accessed'' = Some stored"
      "\<not> truthy stored \<or> toStr stored = accessedDate today"
    and isbn: "getProp message ''ISBN'' = Some isbn" "\<not> truthy isbn \<or> truthy (optIndex isbn 0)"
    and dashes: "splitAtFirst ''---'' (frontmatterLines entries) = None"
    and patterns: "\<not> hasReplacementPattern (''---\<newline>'' @ frontmatterLines entries @ ''---'')"
  shows "updateFrontmatter message today = Some entries
     \<and> updateYAMLFrontmatter content message today = Some content"
proof -
  let ?L = "frontmatterLines entries"
  let ?B = "''---\<newline>'' @ ?L @ ''---''"
  have u: "updateFrontmatter message today = Some entries"
    by (rule round_trip_entries [OF written stored isbn])
  then have new: "newFrontmatterString message today = Some ?B"
    by (simp add: newFrontmatterString_def)
  from rendered written obtain rest where
    content: "content = ''---\<newline>'' @ ?L @ ''---\<newline>\<newline>'' @ rest"
    by (auto simp: createNoteContent_def split: bind_splits)
  have h: "splitAtFirst ''---'' (''\<newline>'' @ ?L) = None" using dashes by simp
  have l: "last (''\<newline>'' @ ?L) \<noteq> CHR ''-''"
    using frontmatterLines_end [of entries] by auto
  have "splitAtFirst ''---'' ((''\<newline>'' @ ?L) @ ''---'' @ (''\<newline>\<newline>'' @ rest))
      = Some (''\<newline>'' @ ?L, ''\<newline>\<newline>'' @ rest)"
    using h l by (intro splitAtFirst_dashes) auto
  then have m: "frontmatterMatch content = Some (''\<newline>'' @ ?L, ''\<newline>\<newline>'' @ rest)"
    by (simp add: frontmatterMatch_def content)
  have c2: "content = ?B @ (''\<newline>\<newline>'' @ rest)" by (simp add: content)
  have s: "splitAtFirst ?B content = Some ([], ''\<newline>\<newline>'' @ rest)"
    unfolding c2 by (rule splitAtFirst_prefix) simp
  have "getSubstitution ?B [] (''\<newline>\<newline>'' @ rest) [] ?B = ?B"
    by (rule getSubstitution_no_pattern [OF patterns])
  with s have "stringReplace content (''---'' @ (''\<newline>'' @ ?L) @ ''---'') ?B = content"
    by (simp add: stringReplace_def) (simp add: content)
  with new m have "updateYAMLFrontmatter content message today = Some content"
    by (simp add: updateYAMLFrontmatter_def)
  with u show ?thesis by simp
qed

theorem metadata_round_trip_witness:
  "updateFrontmatter fetchedRecord firstOfJune
     = Some [(''tags'', ''[CreatedBy/HappyRef]''), (''DOI'', ''10.1/x''),
             (''Date Accessed'', ''2025-06-01'')]
   \<and> updateYAMLFrontmatter harvardNote fetchedRecord firstOfJune = Some harvardNote"
proof -
  let ?entries = "[(''tags'', ''[CreatedBy/HappyRef]''), (''DOI'', ''10.1/x''),
                   (''Date Accessed'', ''2025-06-01'')]"
  have written: "createNoteFrontmatter fetchedRecord firstOfJune = Some ?entries"
    by (simp add: note_defs fetchedRecord_def firstOfJune_def showNat.simps)
  have stored: "getProp fetchedRecord ''date-accessed'' = Some (JStr ''2025-06-01'')"
    "\<not> truthy (JStr ''2025-06-01'') \<or> toStr (JStr ''2025-06-01'') = accessedDate firstOfJune"
    by (simp_all add: fetchedRecord_def accessedDate_def padStart2_def firstOfJune_def
        showNat.simps)
  have isbn: "getProp fetchedRecord ''ISBN'' = Some JUndefined"
    "\<not> truthy JUndefined \<or> truthy (optIndex JUndefined 0)"
    by (simp_all add: fetchedRecord_def)
  have dashes: "splitAtFirst ''---'' (frontmatterLines ?entries) = None"
    by (simp add: frontmatterLines_def)
  have patterns: "\<not> hasReplacementPattern (''---\<newline>'' @ frontmatterLines ?entries @ ''---'')"
    by (simp add: frontmatterLines_def)
  from metadata_round_trip [OF fetchedNote_rendered written stored isbn dashes patterns]
  show ?thesis .
qed

subsection \<open>The citation section and the write-back\<close>

text \<open>
  Within the body the replacement keeps its frame: either the body has a citation span,
  and only the span changes, or the new section is appended to the unchanged body.
\<close>

lemma replaceCitationSection_frame:
  "(\<exists>h old t new. contentBody = h @ ''## Citation\<newline>'' @ old @ ''\<newline>---'' @ t
       \<and> replaceCitationSection contentBody citationText = h @ new @ t)
   \<or> replaceCitationSection contentBody citationText
       = contentBody @ ''\<newline>## Citation\<newline>'' @ citationText @ ''\<newline>\<newline>---''"
proof (cases "splitAtFirst ''## Citation\<newline>'' contentBody")
  case None
  then show ?thesis by (simp add: replaceCitationSection_def)
next
  case (Some p)
  obtain h rest where p: "p = (h, rest)" by (cases p)
  show ?thesis
  proof (cases "splitAtFirst ''\<newline>---'' rest")
    case None
    with Some p show ?thesis by (simp add: replaceCitationSection_def)
  next
    case inner: (Some q)
    obtain old t where q: "q = (old, t)" by (cases q)
    from Some p have "contentBody = h @ ''## Citation\<newline>'' @ rest"
      by (auto dest: splitAtFirst_Some)
    moreover from inner q have "rest = old @ ''\<newline>---'' @ t"
      by (auto dest: splitAtFirst_Some)
    ultimately have "contentBody = h @ ''## Citation\<newline>'' @ old @ ''\<newline>---'' @ t"
      by simp
    moreover have "\<exists>new. replaceCitationSection contentBody citationText = h @ new @ t"
      using Some p inner q by (simp add: replaceCitationSection_def)
    ultimately show ?thesis by blast
  qed
qed

lemma frontmatterMatch_Some:
  "frontmatterMatch fileContent = Some (inner, contentBody)
   \<Longrightarrow> fileContent = ''---'' @ inner @ ''---'' @ contentBody"
proof -
  assume a: "frontmatterMatch fileContent = Some (inner, contentBody)"
  then have t: "take 3 fileContent = ''---''"
    and s: "splitAtFirst ''---'' (drop 3 fileContent) = Some (inner, contentBody)"
    by (auto simp: frontmatterMatch_def split: if_splits)
  from s have "drop 3 fileContent = inner @ ''---'' @ contentBody" by (rule splitAtFirst_Some)
  with t show ?thesis by (metis append_take_drop_id)
qed

text \<open>What a run that does not throw reads and what it writes back.\<close>

lemma changeCitationStyle_written:
  assumes "changeCitationStyle c today fileContent newStyle = (None, written)"
  shows "\<exists>inner contentBody citationText.
           fileContent = ''---'' @ inner @ ''---'' @ contentBody
           \<and> written = ''---\<newline>'' @ inner @ ''---\<newline>''
                        @ replaceCitationSection contentBody citationText"
proof -
  from assms obtain inner contentBody where
    m: "frontmatterMatch fileContent = Some (inner, contentBody)"
    by (cases "frontmatterMatch fileContent") (auto simp: changeCitationStyle_def)
  from assms m have "\<exists>citationText. written = ''---\<newline>'' @ inner @ ''---\<newline>''
                        @ replaceCitationSection contentBody citationText"
    by (auto simp: changeCitationStyle_def Let_def split: option.splits sum.splits prod.splits)
  with frontmatterMatch_Some [OF m] show ?thesis by blast
qed

text \<open>
  C6. The claim is that, apart from the citation span, every byte of the document stays
  as it was, the metadata block included. The write-back
  \<open>`---\n${frontmatterMatch[1]}---\n${updatedContent}`\<close> puts a line break after the
  opening and after the closing dashes, although the captured block and the body each
  begin with their own. Changing the style of the Harvard note to APA gives a document
  with an empty line more at both places.
\<close>

theorem change_style_rewrites_outside_span:
  "changeCitationStyle registry firstOfJune harvardNote APA =
     (None,
      ''---\<newline>\<newline>tags: [CreatedBy/HappyRef]\<newline>DOI: 10.1/x\<newline>Date Accessed: 2025-06-01\<newline>---\<newline>\<newline>\<newline>''
      @ ''# Deep Learning\<newline>\<newline>''
      @ ''## Citation\<newline>Could not generate APA citation due to missing data.\<newline>\<newline>---\<newline>\<newline>''
      @ ''## Abstract\<newline>Text\<newline>'')"
  by (simp add: change_defs registry_def bookRecord_def harvardNote_def formatAPACitation_def
      missingData_def)

subsection \<open>The completeness check on a rendered note\<close>

lemma fieldEntry_keys: "fieldEntry m k label = Some es \<Longrightarrow> set (map fst es) \<subseteq> {label}"
  by (auto simp: fieldEntry_def split: bind_splits if_splits)

lemma firstEntry_keys: "firstEntry m k label = Some es \<Longrightarrow> set (map fst es) \<subseteq> {label}"
  by (auto simp: firstEntry_def split: bind_splits if_splits)

lemma publicationDateEntry_keys:
  "publicationDateEntry m = Some es \<Longrightarrow> set (map fst es) \<subseteq> {''Publication_Date''}"
  by (auto simp: publicationDateEntry_def split: bind_splits if_splits)

lemma createNoteISBN_keys: "createNoteISBN m = Some es \<Longrightarrow> set (map fst es) \<subseteq> {''ISBN''}"
  by (auto simp: createNoteISBN_def split: bind_splits if_splits)

lemma createNoteFrontmatter_keys:
  assumes "createNoteFrontmatter message today = Some entries"
  shows "set (map fst entries) \<subseteq> set rendererKeys"
proof -
  from assms obtain authors journal volume page issue publicationDate doi type url isbn where
    parts: "firstEntry message ''container-title'' ''Journal'' = Some journal"
      "fieldEntry message ''volume'' ''Volume'' = Some volume"
      "fieldEntry message ''page'' ''Page'' = Some page"
      "fieldEntry message ''issue'' ''Issue'' = Some issue"
      "publicationDateEntry message = Some publicationDate"
      "fieldEntry message ''DOI'' ''DOI'' = Some doi"
      "fieldEntry message ''type'' ''Type'' = Some type"
      "fieldEntry message ''URL'' ''URL'' = Some url"
      "createNoteISBN message = Some isbn"
    and entries: "entries = [(''tags'', ''[CreatedBy/HappyRef]'')]
           @ (if authors \<noteq> [] then [(''authors'', jsonStringify authors)] else [])
           @ journal @ volume @ page @ issue @ publicationDate @ doi @ type @ url @ isbn
           @ [(''Date Accessed'', accessedDate today)]"
    unfolding createNoteFrontmatter_def bind_eq_Some_conv by (elim exE conjE) (simp, blast)
  have inK: "\<And>es label. set (map fst es) \<subseteq> {label} \<Longrightarrow> label \<in> set rendererKeys
      \<Longrightarrow> set (map fst es) \<subseteq> set rendererKeys"
    by blast
  have k: "set (map fst journal) \<subseteq> set rendererKeys" "set (map fst volume) \<subseteq> set rendererKeys"
    "set (map fst page) \<subseteq> set rendererKeys" "set (map fst issue) \<subseteq> set rendererKeys"
    "set (map fst publicationDate) \<subseteq> set rendererKeys" "set (map fst doi) \<subseteq> set rendererKeys"
    "set (map fst type) \<subseteq> set rendererKeys" "set (map fst url) \<subseteq> set rendererKeys"
    "set (map fst isbn) \<subseteq> set rendererKeys"
    by (rule inK [OF firstEntry_keys [OF parts(1)]], simp add: rendererKeys_def,
        rule inK [OF fieldEntry_keys [OF parts(2)]], simp add: rendererKeys_def,
        rule inK [OF fieldEntry_keys [OF parts(3)]], simp add: rendererKeys_def,
        rule inK [OF fieldEntry_keys [OF parts(4)]], simp add: rendererKeys_def,
        rule inK [OF publicationDateEntry_keys [OF parts(5)]], simp add: rendererKeys_def,
        rule inK [OF fieldEntry_keys [OF parts(6)]], simp add: rendererKeys_def,
        rule inK [OF fieldEntry_keys [OF parts(7)]], simp add: rendererKeys_def,
        rule inK [OF fieldEntry_keys [OF parts(8)]], simp add: rendererKeys_def,
        rule inK [OF createNoteISBN_keys [OF parts(9)]], simp add: rendererKeys_def)
  have fixed: "''tags'' \<in> set rendererKeys" "''authors'' \<in> set rendererKeys"
    "''Date Accessed'' \<in> set rendererKeys"
    by (simp_all add: rendererKeys_def)
  have au: "set (map fst (if authors \<noteq> [] then [(''authors'', jsonStringify authors)] else []))
      \<subseteq> set rendererKeys"
    using fixed(2) by (cases "authors = []") simp_all
  show ?thesis
    unfolding entries using k fixed au
    by (simp only: map_append set_append Un_subset_iff list.map list.set fst_conv
        insert_subset empty_subsetI simp_thms)
qed

lemma rendererKeys_not_required: "set rendererKeys \<inter> set requiredMetadata = {}"
  by (simp add: rendererKeys_def requiredMetadata_def)

lemma map_of_absent: "k \<notin> set (map fst kvs) \<Longrightarrow> map_of kvs k = None"
  by (simp add: map_of_eq_None_iff)

lemma colonNote_rendered: "createNoteContent NoneStyle firstOfJune colonRecord = Some colonNote"
  by (simp add: note_defs colonRecord_def firstOfJune_def colonNote_def showNat.simps
      replaceAll_eval)

text \<open>
  C10, as the claim states it, speaks of every note \<open>createNote\<close> renders. The values
  are written into the block as they are, and \<open>yaml.load\<close> is called outside every
  \<open>try\<close>. For the note of a record without a DOI whose journal name has a colon in it,
  the parser throws: the operation ends with that exception, before the completeness
  check, and not with the missing-DOI error.
\<close>

theorem yaml_exception_ends_before_check:
  "createNoteContent NoneStyle firstOfJune colonRecord = Some colonNote
   \<and> changeCitationStyle strictParser firstOfJune colonNote Harvard
     = (Some YAMLException, colonNote)"
proof -
  have "changeCitationStyle strictParser firstOfJune colonNote Harvard
     = (Some YAMLException, colonNote)"
    by (simp add: changeCitationStyle_def frontmatterMatch_def colonNote_def strictParser_def)
  with colonNote_rendered show ?thesis by simp
qed

text \<open>
  C10, amended. Take a note that \<open>createNote\<close> rendered from a record, with the entries
  it wrote into the metadata block, and let the YAML parser read this block as an object
  with no other keys than the ones written. Then none of the keys \<open>author\<close>,
  \<open>issued\<close>, \<open>title\<close>, \<open>container-title\<close> was written (the authors are under
  \<open>authors\<close>, the container title under \<open>Journal\<close>, the title nowhere), the
  completeness check of \<open>changeCitationStyle\<close> fails, the operation goes on with what
  the re-fetch gives, and when no \<open>DOI\<close> entry was written it ends with the missing-DOI
  error and leaves the file as it was.
\<close>

theorem rendered_note_is_incomplete:
  assumes rendered: "createNoteContent style today message = Some fileContent"
    and written: "createNoteFrontmatter message today = Some entries"
    and block: "frontmatterMatch fileContent = Some (inner, contentBody)"
    and parsed: "yamlLoad c inner = Some (JObj parsed)"
    and keys: "set (map fst parsed) \<subseteq> set (map fst entries)"
  shows "set (map fst entries) \<inter> set requiredMetadata = {}
     \<and> metadataComplete (JObj parsed) = Some False
     \<and> changeCitationStyle c day fileContent newStyle
         = (case refetch c day fileContent (JObj parsed) of
              Inl e \<Rightarrow> (Some e, fileContent)
            | Inr (citationMetadata, rewritten) \<Rightarrow>
                (case formatCitation newStyle citationMetadata of
                   None \<Rightarrow> (Some TypeError, rewritten)
                 | Some citationText \<Rightarrow>
                     (None,
                      ''---\<newline>'' @ inner @ ''---\<newline>''
                      @ replaceCitationSection contentBody citationText)))
     \<and> (''DOI'' \<notin> set (map fst entries) \<longrightarrow>
          changeCitationStyle c day fileContent newStyle
            = (Some (Error ''Missing DOI in note metadata. Cannot re-fetch citation data.''),
               fileContent))"
proof -
  have sub: "set (map fst entries) \<subseteq> set rendererKeys"
    by (rule createNoteFrontmatter_keys [OF written])
  with rendererKeys_not_required have disj: "set (map fst entries) \<inter> set requiredMetadata = {}"
    by blast
  with keys have "''title'' \<notin> set (map fst parsed)"
    by (auto simp: requiredMetadata_def)
  then have "map_of parsed ''title'' = None" by (rule map_of_absent)
  then have incomplete: "metadataComplete (JObj parsed) = Some False"
    by (simp add: metadataComplete_def requiredMetadata_def)
  have path: "changeCitationStyle c day fileContent newStyle
         = (case refetch c day fileContent (JObj parsed) of
              Inl e \<Rightarrow> (Some e, fileContent)
            | Inr (citationMetadata, rewritten) \<Rightarrow>
                (case formatCitation newStyle citationMetadata of
                   None \<Rightarrow> (Some TypeError, rewritten)
                 | Some citationText \<Rightarrow>
                     (None,
                      ''---\<newline>'' @ inner @ ''---\<newline>''
                      @ replaceCitationSection contentBody citationText)))"
    using block parsed incomplete by (simp add: changeCitationStyle_def)
  have "changeCitationStyle c day fileContent newStyle
            = (Some (Error ''Missing DOI in note metadata. Cannot re-fetch citation data.''),
               fileContent)" if "''DOI'' \<notin> set (map fst entries)"
  proof -
    from that keys have "''DOI'' \<notin> set (map fst parsed)" by blast
    then have "map_of parsed ''DOI'' = None" by (rule map_of_absent)
    then have "refetch c day fileContent (JObj parsed)
        = Inl (Error ''Missing DOI in note metadata. Cannot re-fetch citation data.'')"
      by (simp add: refetch_def)
    with path show ?thesis by simp
  qed
  with disj incomplete path show ?thesis by blast
qed

theorem rendered_note_is_incomplete_witness:
  "metadataComplete
     (JObj [(''tags'', JArr [JStr ''CreatedBy/HappyRef'']), (''Date Accessed'', JStr ''2025-06-01'')])
     = Some False
   \<and> changeCitationStyle offline firstOfJune untrackedNote Harvard
     = (Some (Error ''Missing DOI in note metadata. Cannot re-fetch citation data.''), untrackedNote)"
proof -
  have written: "createNoteFrontmatter untrackedRecord firstOfJune
      = Some [(''tags'', ''[CreatedBy/HappyRef]''), (''Date Accessed'', ''2025-06-01'')]"
    by (simp add: note_defs untrackedRecord_def firstOfJune_def showNat.simps)
  have block: "frontmatterMatch untrackedNote
      = Some (''\<newline>tags: [CreatedBy/HappyRef]\<newline>Date Accessed: 2025-06-01\<newline>'',
              ''\<newline>\<newline># Deep Learning\<newline>\<newline>## Abstract\<newline>Text\<newline>'')"
    by (simp add: frontmatterMatch_def untrackedNote_def)
  have parsed: "yamlLoad offline ''\<newline>tags: [CreatedBy/HappyRef]\<newline>Date Accessed: 2025-06-01\<newline>''
      = Some (JObj [(''tags'', JArr [JStr ''CreatedBy/HappyRef'']),
                    (''Date Accessed'', JStr ''2025-06-01'')])"
    by (simp add: offline_def)
  have keys: "set (map fst [(''tags'', JArr [JStr ''CreatedBy/HappyRef'']),
                            (''Date Accessed'', JStr ''2025-06-01'')])
      \<subseteq> set (map fst [(''tags'', ''[CreatedBy/HappyRef]''), (''Date Accessed'', ''2025-06-01'')])"
    by simp
  from rendered_note_is_incomplete [OF untrackedNote_rendered written block parsed keys,
      of firstOfJune Harvard]
  have "metadataComplete
     (JObj [(''tags'', JArr [JStr ''CreatedBy/HappyRef'']), (''Date Accessed'', JStr ''2025-06-01'')])
     = Some False"
    and "''DOI'' \<notin> set (map fst [(''tags'', ''[CreatedBy/HappyRef]''),
                                     (''Date Accessed'', ''2025-06-01'')])
      \<longrightarrow> changeCitationStyle offline firstOfJune untrackedNote Harvard
        = (Some (Error ''Missing DOI in note metadata. Cannot re-fetch citation data.''),
           untrackedNote)"
    by blast+
  then show ?thesis by simp
qed

end
